theory Spec2Isabelle
  imports Complex_Main
begin

section \<open>Python values and exceptions\<close>

text \<open>
  The program is dynamically typed: decoded JSON bodies, cached values and the fields of
  a translation result are arbitrary Python values. \<open>pyval\<close> covers the values JSON
  decoding produces. A float is represented by the rational it denotes (rounding is not
  modelled); a dict is an association list read with \<open>map_of\<close>.
\<close>

datatype pyval =
    PNone
  | PBool bool
  | PInt int
  | PFloat rat
  | PStr string
  | PList "pyval list"
  | PDict "(string \<times> pyval) list"

type_synonym pydict = "(string \<times> pyval) list"

text \<open>\<open>d.get(k, default)\<close> on a dict.\<close>

definition dict_get :: "pydict \<Rightarrow> string \<Rightarrow> pyval \<Rightarrow> pyval" where
  "dict_get d k dflt = (case map_of d k of None \<Rightarrow> dflt | Some v \<Rightarrow> v)"

text \<open>Python truthiness, as \<open>if cached_result:\<close> evaluates it.\<close>

fun truthy :: "pyval \<Rightarrow> bool" where
  "truthy PNone = False"
| "truthy (PBool b) = b"
| "truthy (PInt i) = (i \<noteq> 0)"
| "truthy (PFloat r) = (r \<noteq> 0)"
| "truthy (PStr s) = (s \<noteq> [])"
| "truthy (PList xs) = (xs \<noteq> [])"
| "truthy (PDict d) = (d \<noteq> [])"

text \<open>
  \<open>APIError\<close> of \<open>api/deepseek_client.py\<close> (a dataclass deriving from Exception). Every
  other exception is \<open>PyException\<close> with its class name; only the distinction between
  \<open>APIError\<close> and the rest decides control flow (\<open>except APIError\<close> against
  \<open>except Exception\<close>).
\<close>

record api_error =
  status_code :: int
  message :: pyval
  type :: pyval
  param :: pyval
  code :: pyval

datatype exn = APIError api_error | PyException string

text \<open>
  The \<open>+\<close> of \<open>self.total_tokens += ...\<close>. The left operand is the counter, an int
  or a float; on the right a bool counts as int, a float makes the sum a float, and every
  other operand raises TypeError.
\<close>

fun py_add :: "pyval \<Rightarrow> pyval \<Rightarrow> exn + pyval" where
  "py_add (PInt a) (PInt b) = Inr (PInt (a + b))"
| "py_add (PInt a) (PBool b) = Inr (PInt (a + (if b then 1 else 0)))"
| "py_add (PInt a) (PFloat b) = Inr (PFloat (of_int a + b))"
| "py_add (PFloat a) (PInt b) = Inr (PFloat (a + of_int b))"
| "py_add (PFloat a) (PBool b) = Inr (PFloat (a + (if b then 1 else 0)))"
| "py_add (PFloat a) (PFloat b) = Inr (PFloat (a + b))"
| "py_add _ _ = Inl (PyException ''TypeError'')"

section \<open>Configuration (security/config.py)\<close>

text \<open>
  The three settings the core reads. \<open>valid_config\<close> is the range pydantic enforces on
  them: \<open>retry_attempts: Field(default=3, ge=1, le=10)\<close>,
  \<open>cache_ttl: Field(default=3600, ge=60)\<close>, \<open>batch_size: Field(default=10, ge=1, le=50)\<close>.
\<close>

record config =
  retry_attempts :: int
  cache_ttl :: int
  batch_size :: int

definition valid_config :: "config \<Rightarrow> bool" where
  "valid_config cfg =
     (1 \<le> retry_attempts cfg \<and> retry_attempts cfg \<le> 10 \<and> 60 \<le> cache_ttl cfg \<and>
      1 \<le> batch_size cfg \<and> batch_size cfg \<le> 50)"

definition default_config :: config where
  "default_config = \<lparr>retry_attempts = 3, cache_ttl = 3600, batch_size = 10\<rparr>"

section \<open>Throttled transport (DeepSeekClient._make_request)\<close>

text \<open>
  What one HTTP exchange does is the environment's choice. \<open>session.request\<close> either
  raises before a response arrives (\<open>aiohttp.ClientError\<close> with its text, or
  \<open>asyncio.TimeoutError\<close>) or yields a response with a status; reading the body with
  \<open>response.json()\<close> then gives a JSON object, or raises one of the same two exceptions,
  or raises something else (\<open>BodyError\<close> with the class name, e.g. a JSONDecodeError).
  Bodies that decode to something other than a JSON object are outside the model.
\<close>

datatype body =
    JsonBody pydict
  | BodyClientError string
  | BodyTimeout
  | BodyError string

datatype exchange =
    ClientError string
  | TimeoutError
  | Response int body

text \<open>
  The client object. \<open>request_count\<close> and \<open>total_tokens\<close> are the source's counters
  (the float latency accumulator \<open>total_request_time\<close> is left out). Two fields are
  instrumentation that the source does not have: \<open>attempts\<close> counts the calls of
  \<open>_make_request\<close> and indexes the transport (the n-th call sees \<open>transport n\<close>), and
  \<open>slept\<close> lists the arguments of \<open>asyncio.sleep\<close> in order.
\<close>

record deepseek_client =
  request_count :: int
  total_tokens :: pyval
  attempts :: nat
  slept :: "int list"

definition new_client :: deepseek_client where
  "new_client = \<lparr>request_count = 0, total_tokens = PInt 0, attempts = 0, slept = []\<rparr>"

definition network_error :: "string \<Rightarrow> exn" where
  "network_error m =
     APIError \<lparr>status_code = 0, message = PStr (''Network error: '' @ m),
               type = PNone, param = PNone, code = PNone\<rparr>"

definition request_timeout :: exn where
  "request_timeout =
     APIError \<lparr>status_code = 0, message = PStr ''Request timeout'',
               type = PNone, param = PNone, code = PNone\<rparr>"

text \<open>
  Lines 139-156: the error raised for a status other than 200. \<open>error_data.get('error', {})\<close>
  must be a dict for the following \<open>.get\<close> calls; on any other value they raise
  AttributeError, which is not an \<open>APIError\<close>.
\<close>

definition http_error :: "int \<Rightarrow> pydict \<Rightarrow> exn" where
  "http_error status error_data =
     (case dict_get error_data ''error'' (PDict []) of
        PDict e \<Rightarrow>
          APIError \<lparr>status_code = status,
                    message = dict_get e ''message'' (PStr ''Unknown error''),
                    type = dict_get e ''type'' PNone,
                    param = dict_get e ''param'' PNone,
                    code = dict_get e ''code'' PNone\<rparr>
      | _ \<Rightarrow> PyException ''AttributeError'')"

text \<open>
  Lines 121-136: a 200 response. The token counter is updated when the body has a
  \<open>usage\<close> entry; a \<open>usage\<close> that is not a dict, or a token count that is not a number,
  raises.
\<close>

definition count_tokens :: "pydict \<Rightarrow> deepseek_client \<Rightarrow> exn + deepseek_client" where
  "count_tokens data c =
     (case map_of data ''usage'' of
        None \<Rightarrow> Inr c
      | Some (PDict u) \<Rightarrow>
          (case py_add (total_tokens c) (dict_get u ''total_tokens'' (PInt 0)) of
             Inl e \<Rightarrow> Inl e
           | Inr t \<Rightarrow> Inr (c\<lparr>total_tokens := t\<rparr>))
      | Some _ \<Rightarrow> Inl (PyException ''AttributeError''))"

text \<open>
  \<open>_make_request\<close>. The statistics are updated inside \<open>async with session.request(...) as
  response\<close>, that is, once a response has arrived and before its status is looked at.
  The two \<open>except\<close> clauses turn \<open>aiohttp.ClientError\<close> and \<open>asyncio.TimeoutError\<close>,
  raised before or after that point, into an \<open>APIError\<close> with \<open>status_code=0\<close>.
\<close>

definition make_request ::
  "(nat \<Rightarrow> exchange) \<Rightarrow> deepseek_client \<Rightarrow> (exn + pydict) \<times> deepseek_client" where
  "make_request transport c =
     (let c0 = c\<lparr>attempts := attempts c + 1\<rparr> in
      case transport (attempts c) of
        ClientError m \<Rightarrow> (Inl (network_error m), c0)
      | TimeoutError \<Rightarrow> (Inl request_timeout, c0)
      | Response status b \<Rightarrow>
          (let c1 = c0\<lparr>request_count := request_count c0 + 1\<rparr> in
           case b of
             BodyClientError m \<Rightarrow> (Inl (network_error m), c1)
           | BodyTimeout \<Rightarrow> (Inl request_timeout, c1)
           | BodyError n \<Rightarrow> (Inl (PyException n), c1)
           | JsonBody data \<Rightarrow>
               if status = 200 then
                 (case count_tokens data c1 of
                    Inl e \<Rightarrow> (Inl e, c1)
                  | Inr c2 \<Rightarrow> (Inr data, c2))
               else (Inl (http_error status data), c1)))"

section \<open>Retry coordinator (DeepSeekClient.chat_completion)\<close>

record chat_completion_response =
  id :: pyval
  object :: pyval
  created :: pyval
  model :: pyval
  choices :: pyval
  usage :: pyval

text \<open>
  Lines 225-232: \<open>data["id"]\<close> and the other subscripts raise KeyError on a missing key;
  \<open>usage\<close> is read with \<open>.get("usage", {})\<close>.
\<close>

definition build_response :: "pydict \<Rightarrow> exn + chat_completion_response" where
  "build_response data =
     (case (map_of data ''id'', map_of data ''object'', map_of data ''created'',
            map_of data ''model'', map_of data ''choices'') of
        (Some i, Some ob, Some cr, Some mo, Some ch) \<Rightarrow>
          Inr \<lparr>id = i, object = ob, created = cr, model = mo, choices = ch,
               usage = dict_get data ''usage'' (PDict [])\<rparr>
      | _ \<Rightarrow> Inl (PyException ''KeyError''))"

text \<open>
  The \<open>while retry_count < retry_attempts\<close> loop of lines 219-260, with \<open>retry_count\<close>
  and \<open>last_error\<close> as arguments. The request payload does not influence the control
  flow and is not modelled. Only \<open>APIError\<close> is caught; any other exception leaves the
  loop at once.
\<close>

function chat_loop ::
  "config \<Rightarrow> (nat \<Rightarrow> exchange) \<Rightarrow> int \<Rightarrow> api_error option \<Rightarrow> deepseek_client \<Rightarrow>
   (exn + chat_completion_response) \<times> deepseek_client" where
  "chat_loop cfg transport retry_count last_error c =
     (if retry_count < retry_attempts cfg then
        (case make_request transport c of
           (Inr data, c1) \<Rightarrow> (build_response data, c1)
         | (Inl (PyException n), c1) \<Rightarrow> (Inl (PyException n), c1)
         | (Inl (APIError e), c1) \<Rightarrow>
             if 500 \<le> status_code e \<or> status_code e = 429 then
               (if retry_count + 1 < retry_attempts cfg then
                  chat_loop cfg transport (retry_count + 1) (Some e)
                    (c1\<lparr>slept := slept c1 @ [min (2 ^ nat (retry_count + 1)) 10]\<rparr>)
                else (Inl (APIError e), c1))
             else (Inl (APIError e), c1))
      else
        (case last_error of
           Some e \<Rightarrow> (Inl (APIError e), c)
         | None \<Rightarrow>
             (Inl (APIError \<lparr>status_code = 0, message = PStr ''Max retry attempts exceeded'',
                            type = PNone, param = PNone, code = PNone\<rparr>), c)))"
  by pat_completeness auto
termination
  by (relation "measure (\<lambda>(cfg, transport, retry_count, last_error, c).
        nat (retry_attempts cfg - retry_count))") auto

definition chat_completion ::
  "config \<Rightarrow> (nat \<Rightarrow> exchange) \<Rightarrow> deepseek_client \<Rightarrow>
   (exn + chat_completion_response) \<times> deepseek_client" where
  "chat_completion cfg transport c = chat_loop cfg transport 0 None c"

text \<open>\<open>get_stats()["request_count"]\<close>.\<close>

definition get_stats_request_count :: "deepseek_client \<Rightarrow> int" where
  "get_stats_request_count c = request_count c"

text \<open>\<open>n\<close> consecutive calls of \<open>_make_request\<close>, whatever each returns or raises.\<close>

fun make_requests :: "(nat \<Rightarrow> exchange) \<Rightarrow> nat \<Rightarrow> deepseek_client \<Rightarrow> deepseek_client" where
  "make_requests transport 0 c = c"
| "make_requests transport (Suc n) c = make_requests transport n (snd (make_request transport c))"


section \<open>Tiered cache (storage/cache_manager.py)\<close>

text \<open>
  Library functions the cache and the translator call, as parameters: \<open>json.dumps\<close>,
  \<open>json.loads\<close> (\<open>None\<close> stands for a JSONDecodeError), \<open>str\<close> and the hex digest
  of \<open>hashlib.md5\<close>.
\<close>

record pylib =
  json_dumps :: "pyval \<Rightarrow> string"
  json_loads :: "string \<Rightarrow> pyval option"
  str :: "pyval \<Rightarrow> string"
  md5_hexdigest :: "string \<Rightarrow> string"

record cache_stats =
  memory_hits :: int
  memory_misses :: int
  redis_hits :: int
  redis_misses :: int
  disk_hits :: int
  disk_misses :: int
  memory_sets :: int
  redis_sets :: int
  disk_sets :: int

text \<open>
  The cache manager with its two backing stores. Tier 1 is the pair of dicts
  \<open>_memory_cache\<close> and \<open>_memory_cache_ttl\<close> (expiry timestamps). The Redis server and the
  diskcache directory are external; following section 6 of the specification each is a
  key-value store whose entries carry an expiry time and are invisible once it has passed.
  All tiers read one clock, a rational number of seconds. Redis holds strings
  (\<open>decode_responses=True\<close>), the disk store holds pickled values.
\<close>

record cache_manager =
  memory_cache :: "string \<rightharpoonup> pyval"
  memory_cache_ttl :: "string \<rightharpoonup> rat"
  redis_client :: bool
  redis_available :: bool
  redis_store :: "string \<rightharpoonup> string \<times> rat"
  disk_cache :: "string \<rightharpoonup> pyval \<times> rat"
  stats :: cache_stats

text \<open>
  Whether the call to a backing store made by one cache operation raises (connection
  lost, I/O error, value that cannot be serialised). The source wraps each such call
  in \<open>try ... except Exception\<close>.
\<close>

record faults =
  redis_raises :: bool
  disk_raises :: bool

definition redis_lookup :: "rat \<Rightarrow> (string \<rightharpoonup> string \<times> rat) \<Rightarrow> string \<Rightarrow> string option" where
  "redis_lookup now store key =
     (case store key of
        None \<Rightarrow> None
      | Some (s, expires_at) \<Rightarrow> if now < expires_at then Some s else None)"

definition disk_lookup :: "rat \<Rightarrow> (string \<rightharpoonup> pyval \<times> rat) \<Rightarrow> string \<Rightarrow> pyval option" where
  "disk_lookup now store key =
     (case store key of
        None \<Rightarrow> None
      | Some (v, expires_at) \<Rightarrow> if now < expires_at then Some v else None)"

text \<open>\<open>_set_memory_cache\<close> (lines 174-178); \<open>now\<close> is \<open>asyncio.get_event_loop().time()\<close>.\<close>

definition set_memory_cache :: "rat \<Rightarrow> string \<Rightarrow> pyval \<Rightarrow> int \<Rightarrow> cache_manager \<Rightarrow> cache_manager" where
  "set_memory_cache now key v expire cm =
     cm\<lparr>memory_cache := (memory_cache cm)(key \<mapsto> v),
        memory_cache_ttl := (memory_cache_ttl cm)(key \<mapsto> now + of_int expire),
        stats := (stats cm)\<lparr>memory_sets := memory_sets (stats cm) + 1\<rparr>\<rparr>"

text \<open>\<open>_is_cache_valid\<close> (lines 180-185).\<close>

definition is_cache_valid :: "rat \<Rightarrow> string \<Rightarrow> (string \<rightharpoonup> rat) \<Rightarrow> bool" where
  "is_cache_valid now key ttl_dict =
     (case ttl_dict key of None \<Rightarrow> False | Some t \<Rightarrow> now < t)"

text \<open>
  \<open>get\<close>, in the three stages of the source. Stage 3 (lines 126-142): the disk store;
  an exception of the store is logged and counts as a miss.
\<close>

definition get_disk ::
  "config \<Rightarrow> faults \<Rightarrow> rat \<Rightarrow> string \<Rightarrow> pyval \<Rightarrow> cache_manager \<Rightarrow> (exn + pyval) \<times> cache_manager" where
  "get_disk cfg f now key dflt cm =
     (case (if disk_raises f then None else disk_lookup now (disk_cache cm) key) of
        Some cached_value \<Rightarrow>
          (let cm1 = set_memory_cache now key cached_value (cache_ttl cfg) cm
           in (Inr cached_value, cm1\<lparr>stats := (stats cm1)\<lparr>disk_hits := disk_hits (stats cm1) + 1\<rparr>\<rparr>))
      | None \<Rightarrow>
          (Inr dflt, cm\<lparr>stats := (stats cm)\<lparr>disk_misses := disk_misses (stats cm) + 1\<rparr>\<rparr>))"

text \<open>
  Stage 2 (lines 104-124): Redis, consulted only when a client exists and the startup
  ping succeeded. A value that is not JSON is returned as the raw string.
\<close>

definition get_redis ::
  "config \<Rightarrow> pylib \<Rightarrow> faults \<Rightarrow> rat \<Rightarrow> string \<Rightarrow> pyval \<Rightarrow> cache_manager \<Rightarrow>
   (exn + pyval) \<times> cache_manager" where
  "get_redis cfg lib f now key dflt cm =
     (case (if redis_available cm \<and> redis_client cm \<and> \<not> redis_raises f
            then redis_lookup now (redis_store cm) key else None) of
        Some v \<Rightarrow>
          (let cached_value = (case json_loads lib v of Some j \<Rightarrow> j | None \<Rightarrow> PStr v);
               cm1 = set_memory_cache now key cached_value (cache_ttl cfg) cm
           in (Inr cached_value, cm1\<lparr>stats := (stats cm1)\<lparr>redis_hits := redis_hits (stats cm1) + 1\<rparr>\<rparr>))
      | None \<Rightarrow>
          get_disk cfg f now key dflt
            (cm\<lparr>stats := (stats cm)\<lparr>redis_misses := redis_misses (stats cm) + 1\<rparr>\<rparr>))"

text \<open>Stage 1 (lines 90-102) and the whole of \<open>get\<close>. An expired entry is purged.\<close>

definition cache_get ::
  "config \<Rightarrow> pylib \<Rightarrow> faults \<Rightarrow> rat \<Rightarrow> string \<Rightarrow> pyval \<Rightarrow> cache_manager \<Rightarrow>
   (exn + pyval) \<times> cache_manager" where
  "cache_get cfg lib f now key dflt cm =
     (case memory_cache cm key of
        Some v \<Rightarrow>
          if is_cache_valid now key (memory_cache_ttl cm) then
            (Inr v, cm\<lparr>stats := (stats cm)\<lparr>memory_hits := memory_hits (stats cm) + 1\<rparr>\<rparr>)
          else
            get_redis cfg lib f now key dflt
              (cm\<lparr>memory_cache := (memory_cache cm)(key := None),
                  memory_cache_ttl := (memory_cache_ttl cm)(key := None),
                  stats := (stats cm)\<lparr>memory_misses := memory_misses (stats cm) + 1\<rparr>\<rparr>)
      | None \<Rightarrow>
          get_redis cfg lib f now key dflt
            (cm\<lparr>stats := (stats cm)\<lparr>memory_misses := memory_misses (stats cm) + 1\<rparr>\<rparr>))"

text \<open>
  \<open>set\<close> (lines 144-172). The Redis value is \<open>json.dumps(value)\<close> for a dict or list and
  \<open>str(value)\<close> otherwise. An exception of either store is logged and swallowed.
\<close>

definition serialize :: "pylib \<Rightarrow> pyval \<Rightarrow> string" where
  "serialize lib v =
     (case v of PDict d \<Rightarrow> json_dumps lib v | PList xs \<Rightarrow> json_dumps lib v | _ \<Rightarrow> str lib v)"

definition cache_set ::
  "config \<Rightarrow> pylib \<Rightarrow> faults \<Rightarrow> rat \<Rightarrow> string \<Rightarrow> pyval \<Rightarrow> int option \<Rightarrow> cache_manager \<Rightarrow>
   (exn + unit) \<times> cache_manager" where
  "cache_set cfg lib f now key v expire_arg cm =
     (let expire = (case expire_arg of None \<Rightarrow> cache_ttl cfg | Some e \<Rightarrow> e);
          cm1 = set_memory_cache now key v expire cm;
          cm2 = (if redis_available cm1 \<and> redis_client cm1 \<and> \<not> redis_raises f then
                   cm1\<lparr>redis_store := (redis_store cm1)(key \<mapsto> (serialize lib v, now + of_int expire)),
                       stats := (stats cm1)\<lparr>redis_sets := redis_sets (stats cm1) + 1\<rparr>\<rparr>
                 else cm1);
          cm3 = (if disk_raises f then cm2
                 else cm2\<lparr>disk_cache := (disk_cache cm2)(key \<mapsto> (v, now + of_int expire)),
                          stats := (stats cm2)\<lparr>disk_sets := disk_sets (stats cm2) + 1\<rparr>\<rparr>)
      in (Inr (), cm3))"


section \<open>Translation engine (core/translation_engine.py)\<close>

datatype translation_style = LITERAL | CULTURAL | CREATIVE | BALANCED | PROFESSIONAL | CASUAL

datatype quality_level = BASIC | STANDARD | HIGH | PREMIUM

text \<open>The \<open>.value\<close> of the two enums: Chinese words, here as their UTF-8 bytes.\<close>

fun style_value :: "translation_style \<Rightarrow> string" where
  "style_value LITERAL = [CHR 0xE7, CHR 0x9B, CHR 0xB4, CHR 0xE8, CHR 0xAF, CHR 0x91]"
| "style_value CULTURAL = [CHR 0xE6, CHR 0x96, CHR 0x87, CHR 0xE5, CHR 0x8C, CHR 0x96,
                           CHR 0xE9, CHR 0x80, CHR 0x82, CHR 0xE9, CHR 0x85, CHR 0x8D]"
| "style_value CREATIVE = [CHR 0xE5, CHR 0x88, CHR 0x9B, CHR 0xE6, CHR 0x84, CHR 0x8F,
                           CHR 0xE7, CHR 0xBF, CHR 0xBB, CHR 0xE8, CHR 0xAF, CHR 0x91]"
| "style_value BALANCED = [CHR 0xE5, CHR 0xB9, CHR 0xB3, CHR 0xE8, CHR 0xA1, CHR 0xA1]"
| "style_value PROFESSIONAL = [CHR 0xE4, CHR 0xB8, CHR 0x93, CHR 0xE4, CHR 0xB8, CHR 0x9A]"
| "style_value CASUAL = [CHR 0xE5, CHR 0x8F, CHR 0xA3, CHR 0xE8, CHR 0xAF, CHR 0xAD,
                         CHR 0xE5, CHR 0x8C, CHR 0x96]"

fun quality_value :: "quality_level \<Rightarrow> string" where
  "quality_value BASIC = [CHR 0xE5, CHR 0x9F, CHR 0xBA, CHR 0xE7, CHR 0xA1, CHR 0x80]"
| "quality_value STANDARD = [CHR 0xE6, CHR 0xA0, CHR 0x87, CHR 0xE5, CHR 0x87, CHR 0x86]"
| "quality_value HIGH = [CHR 0xE9, CHR 0xAB, CHR 0x98]"
| "quality_value PREMIUM = [CHR 0xE7, CHR 0xB2, CHR 0xBE, CHR 0xE5, CHR 0x93, CHR 0x81]"

text \<open>
  \<open>SubtitleLine\<close> and the part of \<open>TranslationContext\<close> that the cache key reads. Prompt
  construction only produces the request payload and is not modelled.
\<close>

record subtitle_line =
  index :: int
  start_time :: string
  end_time :: string
  "text" :: string
  character :: "string option"

record translation_context =
  original_title :: string
  year :: int
  current_scene :: string

text \<open>
  \<open>TranslationResult\<close>. A dataclass does not check its field types, and the values come
  from decoded JSON or from the cache, so every field is a \<open>pyval\<close>.
\<close>

record translation_result =
  original_text :: pyval
  translated_text :: pyval
  confidence :: pyval
  quality_score :: pyval
  style_score :: pyval
  cultural_score :: pyval
  character_score :: pyval
  suggestions :: pyval
  alternative_translations :: pyval

text \<open>
  The result that echoes the input, with every score \<open>0.0\<close>. The source writes this
  constructor call three times: in the \<open>except\<close> clauses of \<open>translate_subtitle\<close> and
  \<open>_parse_translation_response\<close>, and as \<open>fallback_result\<close> in \<open>translate_batch\<close>.
\<close>

definition fallback_result :: "subtitle_line \<Rightarrow> translation_result" where
  "fallback_result subtitle =
     \<lparr>original_text = PStr (text subtitle), translated_text = PStr (text subtitle),
      confidence = PFloat 0, quality_score = PFloat 0, style_score = PFloat 0,
      cultural_score = PFloat 0, character_score = PFloat 0,
      suggestions = PList [], alternative_translations = PList []\<rparr>"

definition field_names :: "string list" where
  "field_names = [''original_text'', ''translated_text'', ''confidence'', ''quality_score'',
                  ''style_score'', ''cultural_score'', ''character_score'', ''suggestions'',
                  ''alternative_translations'']"

text \<open>\<open>result.__dict__\<close>.\<close>

definition result_dict :: "translation_result \<Rightarrow> pyval" where
  "result_dict r =
     PDict [(''original_text'', original_text r), (''translated_text'', translated_text r),
            (''confidence'', confidence r), (''quality_score'', quality_score r),
            (''style_score'', style_score r), (''cultural_score'', cultural_score r),
            (''character_score'', character_score r), (''suggestions'', suggestions r),
            (''alternative_translations'', alternative_translations r)]"

text \<open>
  \<open>TranslationResult(**cached_result)\<close>: a TypeError unless the argument is a dict whose
  keys are exactly the nine field names (no field has a default).
\<close>

definition result_from_kwargs :: "pyval \<Rightarrow> exn + translation_result" where
  "result_from_kwargs v =
     (case v of
        PDict d \<Rightarrow>
          (if list_all (\<lambda>k. k \<in> set field_names) (map fst d) then
             (case those (map (map_of d) field_names) of
                Some [a, b, c, d1, e, f, g, h, i] \<Rightarrow>
                  Inr \<lparr>original_text = a, translated_text = b, confidence = c,
                       quality_score = d1, style_score = e, cultural_score = f,
                       character_score = g, suggestions = h, alternative_translations = i\<rparr>
              | _ \<Rightarrow> Inl (PyException ''TypeError''))
           else Inl (PyException ''TypeError''))
      | _ \<Rightarrow> Inl (PyException ''TypeError''))"

subsection \<open>Cache key\<close>

fun digits :: "nat \<Rightarrow> string" where
  "digits n = (if n < 10 then [''0123456789'' ! n]
               else digits (n div 10) @ [''0123456789'' ! (n mod 10)])"

text \<open>\<open>str(i)\<close> for an int.\<close>

definition str_int :: "int \<Rightarrow> string" where
  "str_int i = (if i < 0 then CHR ''-'' # digits (nat (- i)) else digits (nat i))"

text \<open>\<open>sep.join(parts)\<close>.\<close>

fun join :: "string \<Rightarrow> string list \<Rightarrow> string" where
  "join sep [] = []"
| "join sep [x] = x"
| "join sep (x # y # ys) = x @ sep @ join sep (y # ys)"

text \<open>
  \<open>_generate_cache_key\<close> (lines 416-437). \<open>subtitle.character or "none"\<close> replaces a
  missing or empty character name.
\<close>

definition generate_cache_key ::
  "pylib \<Rightarrow> subtitle_line \<Rightarrow> translation_context \<Rightarrow> translation_style \<Rightarrow> quality_level \<Rightarrow> string" where
  "generate_cache_key lib subtitle ctx style quality =
     md5_hexdigest lib
       (join ''|''
          [text subtitle,
           (case character subtitle of None \<Rightarrow> ''none'' | Some ch \<Rightarrow> if ch = [] then ''none'' else ch),
           original_title ctx, str_int (year ctx), style_value style, quality_value quality,
           current_scene ctx])"

subsection \<open>Response parsing\<close>

text \<open>
  \<open>re.search(r'\{.*\}', response_text, re.DOTALL)\<close>: the match runs from the first
  opening brace to the last closing brace after it.
\<close>

definition search_braces :: "string \<Rightarrow> string option" where
  "search_braces s =
     (let from_open = dropWhile (\<lambda>ch. ch \<noteq> CHR ''{'') s;
          to_close = rev (dropWhile (\<lambda>ch. ch \<noteq> CHR ''}'') (rev from_open))
      in if 2 \<le> length to_close then Some to_close else None)"

text \<open>
  \<open>_parse_simple_response\<close> (lines 390-414) reads \<open>subtitle.text\<close>, but \<open>subtitle\<close> is
  neither a parameter nor a global of the module: after splitting the text into lines the
  function raises NameError on every input.
\<close>

definition parse_simple_response :: "string \<Rightarrow> exn + pydict" where
  "parse_simple_response response_text = Inl (PyException ''NameError'')"

text \<open>
  \<open>_parse_translation_response\<close> (lines 345-388). The \<open>try\<close> part first: a response text
  that is not a string makes \<open>re.search\<close> raise, a match that is not JSON makes
  \<open>json.loads\<close> raise, and decoded data without a \<open>.get\<close> method raises AttributeError.
\<close>

definition parse_try :: "pylib \<Rightarrow> pyval \<Rightarrow> subtitle_line \<Rightarrow> exn + translation_result" where
  "parse_try lib response_text subtitle =
     (case response_text of
        PStr s \<Rightarrow>
          (case (case search_braces s of
                   Some json_match \<Rightarrow>
                     (case json_loads lib json_match of
                        None \<Rightarrow> Inl (PyException ''JSONDecodeError'')
                      | Some (PDict d) \<Rightarrow> Inr d
                      | Some _ \<Rightarrow> Inl (PyException ''AttributeError''))
                 | None \<Rightarrow> parse_simple_response s) of
             Inl e \<Rightarrow> Inl e
           | Inr data \<Rightarrow>
               Inr \<lparr>original_text = PStr (text subtitle),
                    translated_text = dict_get data ''translation'' (PStr (text subtitle)),
                    confidence = dict_get data ''confidence'' (PFloat (8 / 10)),
                    quality_score = dict_get data ''quality_score'' (PFloat (8 / 10)),
                    style_score = dict_get data ''style_score'' (PFloat (8 / 10)),
                    cultural_score = dict_get data ''cultural_score'' (PFloat (8 / 10)),
                    character_score = dict_get data ''character_score'' (PFloat (8 / 10)),
                    suggestions = dict_get data ''suggestions'' (PList []),
                    alternative_translations = dict_get data ''alternative_translations'' (PList [])\<rparr>)
      | _ \<Rightarrow> Inl (PyException ''TypeError''))"

definition parse_translation_response :: "pylib \<Rightarrow> pyval \<Rightarrow> subtitle_line \<Rightarrow> translation_result" where
  "parse_translation_response lib response_text subtitle =
     (case parse_try lib response_text subtitle of
        Inr result \<Rightarrow> result
      | Inl e \<Rightarrow> fallback_result subtitle)"

text \<open>
  \<open>response.choices[0].message.content\<close> (line 134). \<open>choices\<close> is the decoded JSON value
  of the body, so \<open>choices[0]\<close> is a decoded JSON value too, and none of their types
  (dict, list, str, int, float, bool, NoneType) has an attribute \<open>message\<close>: whenever the
  subscript succeeds, the attribute access raises AttributeError.
\<close>

fun subscript0 :: "pyval \<Rightarrow> exn + pyval" where
  "subscript0 (PList []) = Inl (PyException ''IndexError'')"
| "subscript0 (PList (x # xs)) = Inr x"
| "subscript0 (PStr []) = Inl (PyException ''IndexError'')"
| "subscript0 (PStr (ch # s)) = Inr (PStr [ch])"
| "subscript0 (PDict d) = Inl (PyException ''KeyError'')"
| "subscript0 _ = Inl (PyException ''TypeError'')"

definition message_content :: "pyval \<Rightarrow> exn + pyval" where
  "message_content ch =
     (case subscript0 ch of
        Inl e \<Rightarrow> Inl e
      | Inr first \<Rightarrow> Inl (PyException ''AttributeError''))"

subsection \<open>Statistics\<close>

record translation_stats =
  total_lines :: int
  avg_quality :: rat
  avg_confidence :: rat
  cache_hits :: int

fun number :: "pyval \<Rightarrow> rat option" where
  "number (PInt i) = Some (of_int i)"
| "number (PBool b) = Some (if b then 1 else 0)"
| "number (PFloat r) = Some r"
| "number _ = None"

text \<open>
  \<open>_update_stats\<close> (lines 439-454). The line count is incremented first; a score that is
  not a number then raises TypeError, a line count of zero ZeroDivisionError, and what was
  assigned before the exception stays assigned.
\<close>

definition update_stats :: "translation_result \<Rightarrow> translation_stats \<Rightarrow> exn option \<times> translation_stats" where
  "update_stats result ts =
     (let ts1 = ts\<lparr>total_lines := total_lines ts + 1\<rparr>;
          n = total_lines ts1
      in case number (quality_score result) of
           None \<Rightarrow> (Some (PyException ''TypeError''), ts1)
         | Some q \<Rightarrow>
             if n = 0 then (Some (PyException ''ZeroDivisionError''), ts1)
             else
               (let ts2 = ts1\<lparr>avg_quality := (avg_quality ts1 * of_int (n - 1) + q) / of_int n\<rparr>
                in case number (confidence result) of
                     None \<Rightarrow> (Some (PyException ''TypeError''), ts2)
                   | Some cf \<Rightarrow>
                       (None, ts2\<lparr>avg_confidence :=
                                     (avg_confidence ts2 * of_int (n - 1) + cf) / of_int n\<rparr>)))"


subsection \<open>The translator and its environment\<close>

text \<open>
  The environment fixes what the outside world does: the outcome of the n-th HTTP
  exchange, and for the n-th cache operation of the translator whether a backing store
  raises and what the event loop's clock reads.
\<close>

record env =
  transport :: "nat \<Rightarrow> exchange"
  cache_faults :: "nat \<Rightarrow> faults"
  clock :: "nat \<Rightarrow> rat"

text \<open>
  \<open>ContextAwareTranslator\<close>: the client, the cache manager and the statistics.
  \<open>cache_calls\<close> is instrumentation: the number of cache operations made so far.
\<close>

record translator =
  deepseek_client :: deepseek_client
  cache_manager :: cache_manager
  translation_stats :: translation_stats
  cache_calls :: nat

text \<open>\<open>await self.cache_manager.get(cache_key)\<close> and \<open>await self.cache_manager.set(...)\<close>.\<close>

definition translator_cache_get ::
  "env \<Rightarrow> config \<Rightarrow> pylib \<Rightarrow> string \<Rightarrow> translator \<Rightarrow> (exn + pyval) \<times> translator" where
  "translator_cache_get E cfg lib key w =
     (case cache_get cfg lib (cache_faults E (cache_calls w)) (clock E (cache_calls w)) key PNone
             (cache_manager w) of
        (r, cm) \<Rightarrow> (r, w\<lparr>cache_manager := cm, cache_calls := cache_calls w + 1\<rparr>))"

definition translator_cache_set ::
  "env \<Rightarrow> config \<Rightarrow> pylib \<Rightarrow> string \<Rightarrow> pyval \<Rightarrow> int option \<Rightarrow> translator \<Rightarrow>
   (exn + unit) \<times> translator" where
  "translator_cache_set E cfg lib key v expire w =
     (case cache_set cfg lib (cache_faults E (cache_calls w)) (clock E (cache_calls w)) key v expire
             (cache_manager w) of
        (r, cm) \<Rightarrow> (r, w\<lparr>cache_manager := cm, cache_calls := cache_calls w + 1\<rparr>))"

text \<open>
  The \<open>try\<close> block of \<open>translate_subtitle\<close> (lines 121-150): completion, extraction of
  the text, parsing, write to the cache for seven days, statistics. Whatever raises
  leaves the block with the state reached so far.
\<close>

definition translate_try ::
  "env \<Rightarrow> config \<Rightarrow> pylib \<Rightarrow> subtitle_line \<Rightarrow> string \<Rightarrow> translator \<Rightarrow>
   (exn + translation_result) \<times> translator" where
  "translate_try E cfg lib subtitle cache_key w =
     (case chat_completion cfg (transport E) (deepseek_client w) of
        (Inl e, c1) \<Rightarrow> (Inl e, w\<lparr>deepseek_client := c1\<rparr>)
      | (Inr response, c1) \<Rightarrow>
          (let w1 = w\<lparr>deepseek_client := c1\<rparr> in
           case message_content (choices response) of
             Inl e \<Rightarrow> (Inl e, w1)
           | Inr content \<Rightarrow>
               (let result = parse_translation_response lib content subtitle in
                case translator_cache_set E cfg lib cache_key (result_dict result)
                       (Some (86400 * 7)) w1 of
                  (Inl e, w2) \<Rightarrow> (Inl e, w2)
                | (Inr u, w2) \<Rightarrow>
                    (case update_stats result (translation_stats w2) of
                       (Some e, ts) \<Rightarrow> (Inl e, w2\<lparr>translation_stats := ts\<rparr>)
                     | (None, ts) \<Rightarrow> (Inr result, w2\<lparr>translation_stats := ts\<rparr>)))))"

text \<open>
  \<open>translate_subtitle\<close> (lines 100-165). The cache lookup and the construction of the
  result from a cached value stand before the \<open>try\<close>; \<open>except Exception\<close> turns every
  exception of the block into the echo result. Building the prompt (line 119, also before
  the \<open>try\<close>) only formats strings and is taken to succeed, as it does for arguments of
  the declared types.
\<close>

definition translate_subtitle ::
  "env \<Rightarrow> config \<Rightarrow> pylib \<Rightarrow> subtitle_line \<Rightarrow> translation_context \<Rightarrow> translation_style \<Rightarrow>
   quality_level \<Rightarrow> translator \<Rightarrow> (exn + translation_result) \<times> translator" where
  "translate_subtitle E cfg lib subtitle ctx style quality w =
     (let cache_key = generate_cache_key lib subtitle ctx style quality in
      case translator_cache_get E cfg lib cache_key w of
        (Inl e, w1) \<Rightarrow> (Inl e, w1)
      | (Inr cached_result, w1) \<Rightarrow>
          if truthy cached_result then
            (result_from_kwargs cached_result,
             w1\<lparr>translation_stats :=
                  (translation_stats w1)\<lparr>cache_hits := cache_hits (translation_stats w1) + 1\<rparr>\<rparr>)
          else
            (case translate_try E cfg lib subtitle cache_key w1 of
               (Inr result, w2) \<Rightarrow> (Inr result, w2)
             | (Inl e, w2) \<Rightarrow> (Inr (fallback_result subtitle), w2)))"

subsection \<open>Batch orchestrator (translate_batch)\<close>

text \<open>
  \<open>asyncio.gather(*tasks, return_exceptions=True)\<close>: one outcome per task, in the order
  of the tasks, an exception being an outcome like a result. The tasks of a chunk run
  concurrently in the source; here they run one after the other in list order, which
  fixes one interleaving of their effects on the shared client and cache.
\<close>

fun gather ::
  "env \<Rightarrow> config \<Rightarrow> pylib \<Rightarrow> translation_context \<Rightarrow> translation_style \<Rightarrow> quality_level \<Rightarrow>
   subtitle_line list \<Rightarrow> translator \<Rightarrow> (exn + translation_result) list \<times> translator" where
  "gather E cfg lib ctx style quality [] w = ([], w)"
| "gather E cfg lib ctx style quality (subtitle # rest) w =
     (case translate_subtitle E cfg lib subtitle ctx style quality w of
        (r, w1) \<Rightarrow>
          (case gather E cfg lib ctx style quality rest w1 of
             (rs, w2) \<Rightarrow> (r # rs, w2)))"

text \<open>
  Lines 484-502: \<open>for j, result in enumerate(batch_results)\<close>; an exception is replaced
  by the echo result of \<open>batch[j]\<close>.
\<close>

definition process_results ::
  "subtitle_line list \<Rightarrow> (exn + translation_result) list \<Rightarrow> translation_result list" where
  "process_results batch batch_results =
     map (\<lambda>(j, result). case result of
                           Inl e \<Rightarrow> fallback_result (batch ! j)
                         | Inr r \<Rightarrow> r)
         (enumerate 0 batch_results)"

text \<open>
  The loop \<open>for i in range(0, len(subtitles), batch_size)\<close> for a positive step, with
  \<open>batch = subtitles[i:i + batch_size]\<close> and the list \<open>results\<close> as accumulator.
\<close>

function translate_batches ::
  "env \<Rightarrow> config \<Rightarrow> pylib \<Rightarrow> translation_context \<Rightarrow> translation_style \<Rightarrow> quality_level \<Rightarrow>
   subtitle_line list \<Rightarrow> nat \<Rightarrow> nat \<Rightarrow> translation_result list \<Rightarrow> translator \<Rightarrow>
   translation_result list \<times> translator" where
  "translate_batches E cfg lib ctx style quality subtitles step i results w =
     (if 0 < step \<and> i < length subtitles then
        (let batch = take step (drop i subtitles);
             gathered = gather E cfg lib ctx style quality batch w
         in translate_batches E cfg lib ctx style quality subtitles step (i + step)
              (results @ process_results batch (fst gathered)) (snd gathered))
      else (results, w))"
  by pat_completeness auto
termination
  by (relation "measure (\<lambda>(E, cfg, lib, ctx, style, quality, subtitles, step, i, results, w).
        length subtitles - i)") auto

text \<open>
  \<open>translate_batch\<close> (lines 456-504). \<open>range\<close> raises ValueError for a step of zero and
  is empty for a negative step.
\<close>

definition translate_batch ::
  "env \<Rightarrow> config \<Rightarrow> pylib \<Rightarrow> subtitle_line list \<Rightarrow> translation_context \<Rightarrow> translation_style \<Rightarrow>
   quality_level \<Rightarrow> int option \<Rightarrow> translator \<Rightarrow> (exn + translation_result list) \<times> translator" where
  "translate_batch E cfg lib subtitles ctx style quality batch_size_arg w =
     (let step = (case batch_size_arg of None \<Rightarrow> batch_size cfg | Some b \<Rightarrow> b) in
      if step = 0 then (Inl (PyException ''ValueError''), w)
      else if step < 0 then (Inr [], w)
      else
        (case translate_batches E cfg lib ctx style quality subtitles (nat step) 0 [] w of
           (results, w1) \<Rightarrow> (Inr results, w1)))"

section \<open>Predicates and scenarios used in the theorems\<close>

text \<open>An exchange in which a response with a status arrived.\<close>

fun responded :: "exchange \<Rightarrow> bool" where
  "responded (Response status b) = True"
| "responded _ = False"

text \<open>
  An exchange that ends in one of the two exceptions \<open>_make_request\<close> catches: a
  network-level failure or a timeout, before the response or while its body is read.
\<close>

fun network_failure :: "exchange \<Rightarrow> bool" where
  "network_failure (ClientError m) = True"
| "network_failure TimeoutError = True"
| "network_failure (Response status (BodyClientError m)) = True"
| "network_failure (Response status BodyTimeout) = True"
| "network_failure _ = False"

definition completion_body :: pydict where
  "completion_body =
     [(''id'', PStr ''cmpl-1''), (''object'', PStr ''chat.completion''), (''created'', PInt 0),
      (''model'', PStr ''deepseek-chat''),
      (''choices'', PList [PDict [(''message'', PDict [(''content'', PStr ''{}'')])]]),
      (''usage'', PDict [(''total_tokens'', PInt 12)])]"

definition overloaded_500 :: api_error where
  "overloaded_500 =
     \<lparr>status_code = 500, message = PStr ''overloaded'', type = PNone, param = PNone, code = PNone\<rparr>"

text \<open>A service that answers every request with status 500 and a JSON error body.\<close>

definition always_500 :: "nat \<Rightarrow> exchange" where
  "always_500 n = Response 500 (JsonBody [(''error'', PDict [(''message'', PStr ''overloaded'')])])"

text \<open>A refused connection on the first attempt; the service answers from the second on.\<close>

definition refused_then_ok :: "nat \<Rightarrow> exchange" where
  "refused_then_ok n =
     (if n = 0 then ClientError ''Connection refused'' else Response 200 (JsonBody completion_body))"

text \<open>Four exchanges: a success, a 500, a refused connection, a timeout (and timeouts after).\<close>

definition mixed_transport :: "nat \<Rightarrow> exchange" where
  "mixed_transport n =
     (if n = 0 then Response 200 (JsonBody completion_body)
      else if n = 1 then Response 500 (JsonBody [])
      else if n = 2 then ClientError ''Connection reset''
      else TimeoutError)"

text \<open>Tier 2 answers a read of \<open>key\<close>: it is consulted, does not raise, and holds a live entry.\<close>

definition redis_serves :: "faults \<Rightarrow> rat \<Rightarrow> cache_manager \<Rightarrow> string \<Rightarrow> bool" where
  "redis_serves f now cm key =
     (redis_available cm \<and> redis_client cm \<and> \<not> redis_raises f \<and>
      redis_lookup now (redis_store cm) key \<noteq> None)"

definition no_faults :: faults where
  "no_faults = \<lparr>redis_raises = False, disk_raises = False\<rparr>"

definition all_faults :: faults where
  "all_faults = \<lparr>redis_raises = True, disk_raises = True\<rparr>"

text \<open>A stand-in for the library: nothing decodes as JSON, and the digest is the text itself.\<close>

definition toy_lib :: pylib where
  "toy_lib = \<lparr>json_dumps = (\<lambda>v. ''{}''), json_loads = (\<lambda>s. None), str = (\<lambda>v. ''?''),
              md5_hexdigest = (\<lambda>s. s)\<rparr>"

definition zero_stats :: cache_stats where
  "zero_stats = \<lparr>memory_hits = 0, memory_misses = 0, redis_hits = 0, redis_misses = 0,
                 disk_hits = 0, disk_misses = 0, memory_sets = 0, redis_sets = 0, disk_sets = 0\<rparr>"

text \<open>The cache manager right after construction when no Redis is reachable.\<close>

definition new_cache :: cache_manager where
  "new_cache = \<lparr>memory_cache = Map.empty, memory_cache_ttl = Map.empty, redis_client = False,
                redis_available = False, redis_store = Map.empty, disk_cache = Map.empty,
                stats = zero_stats\<rparr>"

text \<open>
  After a restart: tier 1 is empty, Redis is connected, and the two slower tiers hold
  different values for \<open>k\<close> (a later \<open>set\<close> reached Redis while its disk write failed).
\<close>

definition diverged_cache :: cache_manager where
  "diverged_cache =
     new_cache\<lparr>redis_client := True, redis_available := True,
               redis_store := [''k'' \<mapsto> (''new'', 1000)],
               disk_cache := [''k'' \<mapsto> (PStr ''old'', 1000)]\<rparr>"

text \<open>
  After a restart: tier 1 is empty, Redis is connected but does not hold \<open>k\<close>, and the
  disk store holds \<open>k\<close> for seven days (the lifetime \<open>translate_subtitle\<close> writes with).
\<close>

definition disk_only_cache :: cache_manager where
  "disk_only_cache =
     new_cache\<lparr>redis_client := True, redis_available := True,
               disk_cache := [''k'' \<mapsto> (PStr ''v'', 604800)]\<rparr>"

text \<open>An exchange after which \<open>_make_request\<close> cannot return data: anything but a 200 with a body.\<close>

fun exchange_fails :: "exchange \<Rightarrow> bool" where
  "exchange_fails (Response status (JsonBody d)) = (status \<noteq> 200)"
| "exchange_fails _ = True"

text \<open>No tier of the cache has an entry, live or expired, under \<open>key\<close>.\<close>

definition uncached :: "cache_manager \<Rightarrow> string \<Rightarrow> bool" where
  "uncached cm key =
     (memory_cache cm key = None \<and> redis_store cm key = None \<and> disk_cache cm key = None)"

definition always_refused :: "nat \<Rightarrow> exchange" where
  "always_refused n = ClientError ''Connection refused''"

text \<open>An outage of the remote service, with working local stores and a clock at rest.\<close>

definition outage_env :: env where
  "outage_env = \<lparr>transport = always_refused, cache_faults = (\<lambda>n. no_faults), clock = (\<lambda>n. 0)\<rparr>"

definition hello :: subtitle_line where
  "hello = \<lparr>index = 1, start_time = ''00:00:01,000'', end_time = ''00:00:02,500'',
            text = ''Hello'', character = None\<rparr>"

definition goodbye :: subtitle_line where
  "goodbye = \<lparr>index = 2, start_time = ''00:00:03,000'', end_time = ''00:00:04,000'',
              text = ''Goodbye'', character = Some ''Rick''\<rparr>"

definition movie :: translation_context where
  "movie = \<lparr>original_title = ''Casablanca'', year = 1942, current_scene = ''cafe''\<rparr>"

definition new_translator :: translator where
  "new_translator =
     \<lparr>deepseek_client = new_client, cache_manager = new_cache,
      translation_stats = \<lparr>total_lines = 0, avg_quality = 0, avg_confidence = 0, cache_hits = 0\<rparr>,
      cache_calls = 0\<rparr>"

text \<open>A translation of \<open>hello\<close> as an earlier run stored it.\<close>

definition bonjour :: translation_result where
  "bonjour =
     \<lparr>original_text = PStr ''Hello'', translated_text = PStr ''Bonjour'',
      confidence = PFloat (9 / 10), quality_score = PFloat (9 / 10), style_score = PFloat (8 / 10),
      cultural_score = PFloat (8 / 10), character_score = PFloat (8 / 10),
      suggestions = PList [], alternative_translations = PList []\<rparr>"

text \<open>The disk store holds that translation under the cache key of \<open>hello\<close>.\<close>

definition warm_translator :: translator where
  "warm_translator =
     new_translator\<lparr>cache_manager :=
       new_cache\<lparr>disk_cache :=
         [generate_cache_key toy_lib hello movie BALANCED HIGH \<mapsto> (result_dict bonjour, 604800)]\<rparr>\<rparr>"

text \<open>
  The disk store holds, under the cache key of \<open>hello\<close>, an entry without the score
  fields, as a version of the program with fewer result fields would have written it.
\<close>

definition stale_translator :: translator where
  "stale_translator =
     new_translator\<lparr>cache_manager :=
       new_cache\<lparr>disk_cache :=
         [generate_cache_key toy_lib hello movie BALANCED HIGH \<mapsto>
            (PDict [(''original_text'', PStr ''Hello''), (''translated_text'', PStr ''Bonjour'')],
             604800)]\<rparr>\<rparr>"

text \<open>A value that \<open>TranslationResult(**v)\<close> accepts: a dict whose keys are exactly the nine fields.\<close>

definition complete_result :: "pyval \<Rightarrow> bool" where
  "complete_result v = (case v of PDict d \<Rightarrow> set (map fst d) = set field_names | _ \<Rightarrow> False)"

text \<open>The disk store holds the translation of \<open>hello\<close>, but reading the store raises.\<close>

definition broken_disk_env :: env where
  "broken_disk_env = \<lparr>transport = always_refused, cache_faults = (\<lambda>n. all_faults), clock = (\<lambda>n. 0)\<rparr>"

section \<open>Theorems: transport and retry\<close>

declare chat_loop.simps [simp del]

lemma make_request_attempts [simp]:
  "attempts (snd (make_request tr c)) = attempts c + 1"
  by (simp add: make_request_def Let_def count_tokens_def
      split: exchange.splits body.splits sum.splits option.splits pyval.splits)

lemma make_request_request_count:
  "request_count (snd (make_request tr c)) =
     request_count c + (if responded (tr (attempts c)) then 1 else 0)"
  by (simp add: make_request_def Let_def count_tokens_def
      split: exchange.splits body.splits sum.splits option.splits pyval.splits)

lemma http_error_status:
  "http_error status d = APIError e \<Longrightarrow> status_code e = status"
  by (auto simp: http_error_def split: pyval.splits)

lemma make_request_network_failure:
  "network_failure (tr (attempts c)) \<Longrightarrow> fst (make_request tr c) = Inl (APIError e) \<Longrightarrow>
   status_code e = 0"
  by (cases "tr (attempts c)" rule: network_failure.cases)
     (auto simp: make_request_def Let_def network_error_def request_timeout_def)

lemma make_request_500:
  assumes "tr (attempts c) = Response 500 (JsonBody d)"
  shows "make_request tr c =
         (Inl (http_error 500 d), c\<lparr>attempts := attempts c + 1, request_count := request_count c + 1\<rparr>)"
  using assms by (simp add: make_request_def Let_def)

text \<open>One iteration of the loop after a failed attempt: it either goes round again or ends.\<close>

lemma chat_loop_retry_step:
  assumes "rc < retry_attempts cfg" and "make_request tr c = (Inl (APIError e), c1)"
    and "500 \<le> status_code e \<or> status_code e = 429" and "rc + 1 < retry_attempts cfg"
  shows "chat_loop cfg tr rc le c =
         chat_loop cfg tr (rc + 1) (Some e) (c1\<lparr>slept := slept c1 @ [min (2 ^ nat (rc + 1)) 10]\<rparr>)"
  using assms by (simp add: chat_loop.simps[of cfg tr rc le c])

lemma chat_loop_terminal_step:
  assumes "rc < retry_attempts cfg" and "make_request tr c = (Inl (APIError e), c1)"
    and "\<not> ((500 \<le> status_code e \<or> status_code e = 429) \<and> rc + 1 < retry_attempts cfg)"
  shows "chat_loop cfg tr rc le c = (Inl (APIError e), c1)"
  using assms by (auto simp add: chat_loop.simps[of cfg tr rc le c])

text \<open>The loop never gives attempts back, and an iteration that runs makes one.\<close>

lemma chat_loop_attempts_mono:
  "attempts c \<le> attempts (snd (chat_loop cfg tr rc le c))"
proof (induction cfg tr rc le c rule: chat_loop.induct)
  case (1 cfg tr rc le c)
  show ?case
  proof (cases "rc < retry_attempts cfg")
    case False
    then show ?thesis by (simp add: chat_loop.simps split: option.splits)
  next
    case True
    obtain r c1 where mr: "make_request tr c = (r, c1)" by (cases "make_request tr c")
    have a1: "attempts c1 = attempts c + 1" using make_request_attempts[of tr c] mr by simp
    show ?thesis
    proof (cases r)
      case (Inr data)
      then show ?thesis using True mr a1 by (simp add: chat_loop.simps)
    next
      case (Inl x)
      show ?thesis
      proof (cases x)
        case (PyException n)
        then show ?thesis using True mr a1 Inl by (simp add: chat_loop.simps)
      next
        case (APIError e)
        show ?thesis
        proof (cases "(500 \<le> status_code e \<or> status_code e = 429) \<and> rc + 1 < retry_attempts cfg")
          case False
          then show ?thesis using True mr a1 Inl APIError by (auto simp add: chat_loop.simps)
        next
          case retry: True
          have "attempts (c1\<lparr>slept := slept c1 @ [min (2 ^ nat (rc + 1)) 10]\<rparr>)
                \<le> attempts (snd (chat_loop cfg tr (rc + 1) (Some e)
                     (c1\<lparr>slept := slept c1 @ [min (2 ^ nat (rc + 1)) 10]\<rparr>)))"
            using "1.IH"[OF True mr[symmetric] Inl APIError] retry by blast
          then show ?thesis using True mr a1 Inl APIError retry
            by (simp add: chat_loop.simps[of cfg tr rc le c])
        qed
      qed
    qed
  qed
qed

lemma chat_loop_attempts_step:
  assumes "rc < retry_attempts cfg"
  shows "attempts c + 1 \<le> attempts (snd (chat_loop cfg tr rc le c))"
proof -
  obtain r c1 where mr: "make_request tr c = (r, c1)" by (cases "make_request tr c")
  have a1: "attempts c1 = attempts c + 1" using make_request_attempts[of tr c] mr by simp
  show ?thesis
  proof (cases r)
    case (Inr data)
    then show ?thesis using assms mr a1 by (simp add: chat_loop.simps[of cfg tr rc le c])
  next
    case (Inl x)
    show ?thesis
    proof (cases x)
      case (PyException n)
      then show ?thesis using assms mr a1 Inl by (simp add: chat_loop.simps[of cfg tr rc le c])
    next
      case (APIError e)
      show ?thesis
      proof (cases "(500 \<le> status_code e \<or> status_code e = 429) \<and> rc + 1 < retry_attempts cfg")
        case False
        then show ?thesis
          using chat_loop_terminal_step[OF assms, of tr c e c1 le] mr a1 Inl APIError by simp
      next
        case True
        let ?c2 = "c1\<lparr>slept := slept c1 @ [min (2 ^ nat (rc + 1)) 10]\<rparr>"
        have "chat_loop cfg tr rc le c = chat_loop cfg tr (rc + 1) (Some e) ?c2"
          using chat_loop_retry_step[OF assms, of tr c e c1 le] mr Inl APIError True by blast
        then show ?thesis
          using chat_loop_attempts_mono[of ?c2 cfg tr "rc + 1" "Some e"] a1 by simp
      qed
    qed
  qed
qed

text \<open>
  Claim C1, as amended. The loop of \<open>chat_completion\<close> re-attempts a failed request if and
  only if the \<open>APIError\<close> it caught has \<open>status_code >= 500\<close> or \<open>status_code == 429\<close> and
  another attempt remains (\<open>retry_count + 1 < retry_attempts\<close>): exactly then is a second
  call of \<open>_make_request\<close> made. In every other case the error of this attempt is
  propagated at once. A network-level failure or a timeout carries \<open>status_code = 0\<close>, so
  it falls under "every other case", like a 4xx other than 429.
\<close>

theorem chat_loop_retries_iff_5xx_or_429:
  assumes "rc < retry_attempts cfg" and "fst (make_request tr c) = Inl (APIError e)"
  shows "((attempts c + 1 < attempts (snd (chat_loop cfg tr rc le c))) =
            ((500 \<le> status_code e \<or> status_code e = 429) \<and> rc + 1 < retry_attempts cfg)) \<and>
         (\<not> ((500 \<le> status_code e \<or> status_code e = 429) \<and> rc + 1 < retry_attempts cfg) \<longrightarrow>
            chat_loop cfg tr rc le c = (Inl (APIError e), snd (make_request tr c))) \<and>
         (network_failure (tr (attempts c)) \<longrightarrow> status_code e = 0)"
proof -
  obtain c1 where mr: "make_request tr c = (Inl (APIError e), c1)"
    using assms(2) by (cases "make_request tr c") simp
  have a1: "attempts c1 = attempts c + 1"
    using make_request_attempts[of tr c] mr by simp
  show ?thesis
  proof (cases "(500 \<le> status_code e \<or> status_code e = 429) \<and> rc + 1 < retry_attempts cfg")
    case False
    have "chat_loop cfg tr rc le c = (Inl (APIError e), c1)"
      using chat_loop_terminal_step[OF assms(1) mr False] .
    then show ?thesis
      using False mr a1 make_request_network_failure[OF _ assms(2)] by auto
  next
    case True
    let ?c2 = "c1\<lparr>slept := slept c1 @ [min (2 ^ nat (rc + 1)) 10]\<rparr>"
    have step: "chat_loop cfg tr rc le c = chat_loop cfg tr (rc + 1) (Some e) ?c2"
      using chat_loop_retry_step[OF assms(1) mr] True by blast
    have "attempts ?c2 + 1 \<le> attempts (snd (chat_loop cfg tr (rc + 1) (Some e) ?c2))"
      using chat_loop_attempts_step[of "rc + 1" cfg ?c2 tr "Some e"] True by blast
    then have "attempts c + 1 < attempts (snd (chat_loop cfg tr rc le c))"
      using step a1 by simp
    then show ?thesis
      using True make_request_network_failure[OF _ assms(2)] by auto
  qed
qed

theorem chat_loop_retries_iff_5xx_or_429_witness:
  "(0::int) < retry_attempts default_config \<and>
   fst (make_request always_500 new_client) = Inl (APIError overloaded_500) \<and>
   attempts new_client + 1 < attempts (snd (chat_loop default_config always_500 0 None new_client))"
proof -
  have h1: "(0::int) < retry_attempts default_config" by (simp add: default_config_def)
  have h2: "fst (make_request always_500 new_client) = Inl (APIError overloaded_500)"
    by (simp add: make_request_def always_500_def new_client_def http_error_def dict_get_def
        overloaded_500_def)
  have "(500 \<le> status_code overloaded_500 \<or> status_code overloaded_500 = 429) \<and>
        (0::int) + 1 < retry_attempts default_config"
    by (simp add: overloaded_500_def default_config_def)
  then show ?thesis
    using chat_loop_retries_iff_5xx_or_429[OF h1 h2, of None] h1 h2 by simp
qed

text \<open>
  Claim C1 as stated fails: with three attempts allowed, a refused connection on the
  first attempt is not retried, although the second attempt would have been answered.
\<close>

theorem network_failure_not_retried_counterexample:
  "retry_attempts default_config = 3 \<and>
   network_failure (refused_then_ok 0) \<and>
   fst (chat_completion default_config refused_then_ok new_client) =
     Inl (network_error ''Connection refused'') \<and>
   attempts (snd (chat_completion default_config refused_then_ok new_client)) = 1"
  by (simp add: chat_completion_def chat_loop.simps[of _ _ 0] make_request_def refused_then_ok_def
      new_client_def default_config_def network_error_def)

text \<open>
  Claim C2, as amended. \<open>request_count\<close> grows by one for every attempt in which a
  response with a status arrived, successful or not, and by nothing for an attempt that
  fails before a response (connection error or timeout): after \<open>n\<close> attempts it has grown
  by the number of attempts that were answered.
\<close>

theorem request_count_counts_responses:
  "get_stats_request_count (make_requests tr n c) =
     request_count c + int (length (filter responded (map tr [attempts c ..< attempts c + n])))"
proof (induction n arbitrary: c)
  case 0
  then show ?case by (simp add: get_stats_request_count_def)
next
  case (Suc n)
  have "[attempts c ..< attempts c + Suc n] = attempts c # [attempts c + 1 ..< attempts c + 1 + n]"
    by (simp add: upt_rec)
  then show ?case
    using Suc.IH[of "snd (make_request tr c)"]
    by (simp add: make_request_request_count get_stats_request_count_def)
qed

theorem request_count_counts_responses_witness:
  "get_stats_request_count (make_requests mixed_transport 4 new_client) = 2"
proof -
  have "length (filter responded (map mixed_transport [attempts new_client ..< attempts new_client + 4])) = 2"
    by (simp add: upt_rec mixed_transport_def new_client_def)
  then show ?thesis
    using request_count_counts_responses[of mixed_transport 4 new_client]
    by (simp add: new_client_def)
qed

text \<open>
  Claim C2 as stated fails: one successful and three failed attempts leave
  \<open>request_count\<close> at 2, not 4, because the refused connection and the timeout are not
  counted.
\<close>

theorem request_count_misses_network_failures_counterexample:
  "attempts (make_requests mixed_transport 4 new_client) = 4 \<and>
   get_stats_request_count (make_requests mixed_transport 4 new_client) \<noteq> 4"
  by (simp add: numeral_eq_Suc make_request_def mixed_transport_def new_client_def
      get_stats_request_count_def count_tokens_def completion_body_def dict_get_def
      http_error_def)

text \<open>Against a service that always answers 500, every iteration fails and goes round.\<close>

lemma chat_loop_always_500:
  shows "\<forall>n. \<exists>d e. tr n = Response 500 (JsonBody d) \<and> http_error 500 d = APIError e \<Longrightarrow>
         rc < retry_attempts cfg \<Longrightarrow>
         attempts (snd (chat_loop cfg tr rc le c)) = attempts c + nat (retry_attempts cfg - rc) \<and>
         request_count (snd (chat_loop cfg tr rc le c)) = request_count c + (retry_attempts cfg - rc) \<and>
         (\<exists>d. tr (attempts c + nat (retry_attempts cfg - rc) - 1) = Response 500 (JsonBody d) \<and>
              fst (chat_loop cfg tr rc le c) = Inl (http_error 500 d))"
proof (induction cfg tr rc le c rule: chat_loop.induct)
  case (1 cfg tr rc le c)
  obtain d e where x: "tr (attempts c) = Response 500 (JsonBody d)" and he: "http_error 500 d = APIError e"
    using "1.prems"(1) by blast
  let ?c1 = "c\<lparr>attempts := attempts c + 1, request_count := request_count c + 1\<rparr>"
  have mr: "make_request tr c = (Inl (APIError e), ?c1)"
    using make_request_500[of tr c d] x he by simp
  have st: "status_code e = 500" using http_error_status[OF he] .
  show ?case
  proof (cases "rc + 1 < retry_attempts cfg")
    case False
    then have last: "retry_attempts cfg - rc = 1" using "1.prems"(2) by simp
    have "chat_loop cfg tr rc le c = (Inl (APIError e), ?c1)"
      using chat_loop_terminal_step[OF "1.prems"(2) mr] False by simp
    then show ?thesis using last x he by simp
  next
    case True
    let ?c2 = "?c1\<lparr>slept := slept ?c1 @ [min (2 ^ nat (rc + 1)) 10]\<rparr>"
    have step: "chat_loop cfg tr rc le c = chat_loop cfg tr (rc + 1) (Some e) ?c2"
      using chat_loop_retry_step[OF "1.prems"(2) mr _ True] st by simp
    have IH: "attempts (snd (chat_loop cfg tr (rc + 1) (Some e) ?c2)) =
                attempts ?c2 + nat (retry_attempts cfg - (rc + 1)) \<and>
              request_count (snd (chat_loop cfg tr (rc + 1) (Some e) ?c2)) =
                request_count ?c2 + (retry_attempts cfg - (rc + 1)) \<and>
              (\<exists>d. tr (attempts ?c2 + nat (retry_attempts cfg - (rc + 1)) - 1) = Response 500 (JsonBody d) \<and>
                 fst (chat_loop cfg tr (rc + 1) (Some e) ?c2) = Inl (http_error 500 d))"
      using "1.IH"[OF "1.prems"(2) mr[symmetric] refl refl _ True "1.prems"(1) True] st by simp
    have k: "nat (retry_attempts cfg - rc) = Suc (nat (retry_attempts cfg - (rc + 1)))"
      using True by simp
    have att: "attempts ?c2 = Suc (attempts c)" by simp
    have rq: "request_count ?c2 = request_count c + 1" by simp
    from IH obtain d2 where
      i1: "attempts (snd (chat_loop cfg tr (rc + 1) (Some e) ?c2)) =
             attempts ?c2 + nat (retry_attempts cfg - (rc + 1))" and
      i2: "request_count (snd (chat_loop cfg tr (rc + 1) (Some e) ?c2)) =
             request_count ?c2 + (retry_attempts cfg - (rc + 1))" and
      i3: "tr (attempts ?c2 + nat (retry_attempts cfg - (rc + 1)) - 1) = Response 500 (JsonBody d2)" and
      i4: "fst (chat_loop cfg tr (rc + 1) (Some e) ?c2) = Inl (http_error 500 d2)"
      by blast
    have g1: "attempts (snd (chat_loop cfg tr rc le c)) = attempts c + nat (retry_attempts cfg - rc)"
      unfolding step i1 att k by simp
    have g2: "request_count (snd (chat_loop cfg tr rc le c)) = request_count c + (retry_attempts cfg - rc)"
      unfolding step i2 rq by simp
    have "attempts ?c2 + nat (retry_attempts cfg - (rc + 1)) - 1 =
          attempts c + nat (retry_attempts cfg - rc) - 1"
      unfolding att k by simp
    then have g3: "tr (attempts c + nat (retry_attempts cfg - rc) - 1) = Response 500 (JsonBody d2)"
      using i3 by simp
    have g4: "fst (chat_loop cfg tr rc le c) = Inl (http_error 500 d2)"
      unfolding step i4 ..
    show ?thesis using g1 g2 g3 g4 by blast
  qed
qed

text \<open>
  Claim C3. Against a transport whose every attempt fails with an HTTP 500 error,
  \<open>chat_completion\<close> makes exactly \<open>retry_attempts\<close> attempts (the configuration admits
  values from 1 to 10, default 3) and then fails with the \<open>APIError\<close> of the last attempt,
  whose status is 500.
\<close>

theorem always_500_exhausts_retry_attempts:
  assumes "1 \<le> retry_attempts cfg"
    and "\<forall>n. \<exists>d e. tr n = Response 500 (JsonBody d) \<and> http_error 500 d = APIError e"
  shows "attempts (snd (chat_completion cfg tr c)) = attempts c + nat (retry_attempts cfg) \<and>
         (\<exists>d e. tr (attempts c + nat (retry_attempts cfg) - 1) = Response 500 (JsonBody d) \<and>
                http_error 500 d = APIError e \<and> status_code e = 500 \<and>
                fst (chat_completion cfg tr c) = Inl (APIError e))"
proof -
  have rc: "(0::int) < retry_attempts cfg" using assms(1) by simp
  from chat_loop_always_500[OF assms(2) rc, of None c]
  obtain d where a: "attempts (snd (chat_loop cfg tr 0 None c)) = attempts c + nat (retry_attempts cfg)"
    and x: "tr (attempts c + nat (retry_attempts cfg) - 1) = Response 500 (JsonBody d)"
    and r: "fst (chat_loop cfg tr 0 None c) = Inl (http_error 500 d)"
    by auto
  obtain d' e where "tr (attempts c + nat (retry_attempts cfg) - 1) = Response 500 (JsonBody d')"
    and "http_error 500 d' = APIError e"
    using assms(2) by blast
  then have he: "http_error 500 d = APIError e" using x by simp
  show ?thesis
    using a x r he http_error_status[OF he] by (auto simp: chat_completion_def)
qed

theorem always_500_exhausts_retry_attempts_witness:
  "1 \<le> retry_attempts default_config \<and>
   attempts (snd (chat_completion default_config always_500 new_client)) = 3 \<and>
   fst (chat_completion default_config always_500 new_client) = Inl (APIError overloaded_500)"
proof -
  have h1: "1 \<le> retry_attempts default_config" by (simp add: default_config_def)
  have h2: "\<forall>n. \<exists>d e. always_500 n = Response 500 (JsonBody d) \<and> http_error 500 d = APIError e"
    by (simp add: always_500_def http_error_def dict_get_def)
  note inst = always_500_exhausts_retry_attempts[OF h1 h2, of new_client]
  have att: "attempts (snd (chat_completion default_config always_500 new_client)) = 3"
    using inst by (simp add: default_config_def new_client_def)
  from inst obtain d e where
    x: "always_500 (attempts new_client + nat (retry_attempts default_config) - 1) =
          Response 500 (JsonBody d)" and
    he: "http_error 500 d = APIError e" and
    r: "fst (chat_completion default_config always_500 new_client) = Inl (APIError e)"
    by blast
  have "d = [(''error'', PDict [(''message'', PStr ''overloaded'')])]"
    using x by (simp add: always_500_def)
  then have "e = overloaded_500"
    using he by (simp add: http_error_def dict_get_def overloaded_500_def)
  then show ?thesis using h1 att r by simp
qed

section \<open>Theorems: tiered cache\<close>

lemmas cache_defs = cache_get_def get_redis_def get_disk_def cache_set_def set_memory_cache_def
  is_cache_valid_def

text \<open>
  Claim C5. For every key, value and cache state, \<open>set(k, v, ttl)\<close> with \<open>ttl > 0\<close> at time
  \<open>t\<close>, followed by \<open>get(k)\<close> at a time \<open>t'\<close> before the entry's lifetime has elapsed
  (\<open>t \<le> t' < t + ttl\<close>, in particular at once), returns \<open>v\<close>, whatever the backing stores do
  during either call.
\<close>

theorem set_then_get_returns_value:
  assumes "0 < ttl" and "t \<le> t'" and "t' < t + of_int ttl"
  shows "fst (cache_get cfg lib f' t' k dflt (snd (cache_set cfg lib f t k v (Some ttl) cm))) = Inr v"
  using assms by (simp add: cache_defs Let_def)

theorem set_then_get_returns_value_witness:
  "(0::int) < 60 \<and> (5::rat) \<le> 5 \<and> (5::rat) < 5 + of_int 60 \<and>
   fst (cache_get default_config toy_lib all_faults 5 ''k'' PNone
          (snd (cache_set default_config toy_lib all_faults 5 ''k'' (PStr ''v'') (Some 60) new_cache)))
     = Inr (PStr ''v'')"
proof -
  have h1: "(0::int) < 60" by simp
  have h2: "(5::rat) \<le> 5" by simp
  have h3: "(5::rat) < 5 + of_int 60" by simp
  show ?thesis
    using set_then_get_returns_value[OF h1 h2 h3, where cfg = default_config and lib = toy_lib
        and f = all_faults and f' = all_faults and k = "''k''" and dflt = PNone
        and v = "PStr ''v''" and cm = new_cache] h1 h2 h3
    by simp
qed

text \<open>
  Claim C8. \<open>set\<close> always completes normally and always writes tier 1 (the value, and the
  expiry \<open>now + expire\<close> with the configured default when no lifetime is given), whatever
  the backing stores do: when the Redis write raises or Redis is not available, and when
  the disk write raises, the failure is swallowed and that store is left as it was.
\<close>

theorem set_writes_memory_and_never_raises:
  "fst (cache_set cfg lib f now k v expire cm) = Inr () \<and>
   memory_cache (snd (cache_set cfg lib f now k v expire cm)) k = Some v \<and>
   memory_cache_ttl (snd (cache_set cfg lib f now k v expire cm)) k =
     Some (now + of_int (case expire of None \<Rightarrow> cache_ttl cfg | Some e \<Rightarrow> e)) \<and>
   memory_sets (stats (snd (cache_set cfg lib f now k v expire cm))) = memory_sets (stats cm) + 1 \<and>
   (redis_raises f \<or> \<not> redis_available cm \<or> \<not> redis_client cm \<longrightarrow>
      redis_store (snd (cache_set cfg lib f now k v expire cm)) = redis_store cm) \<and>
   (disk_raises f \<longrightarrow> disk_cache (snd (cache_set cfg lib f now k v expire cm)) = disk_cache cm)"
  by (simp add: cache_defs Let_def)

theorem set_writes_memory_and_never_raises_witness:
  "redis_raises all_faults \<and> disk_raises all_faults \<and>
   fst (cache_set default_config toy_lib all_faults 0 ''k'' (PStr ''v'') None diverged_cache) = Inr () \<and>
   memory_cache (snd (cache_set default_config toy_lib all_faults 0 ''k'' (PStr ''v'') None diverged_cache)) ''k''
     = Some (PStr ''v'') \<and>
   redis_store (snd (cache_set default_config toy_lib all_faults 0 ''k'' (PStr ''v'') None diverged_cache))
     = redis_store diverged_cache \<and>
   disk_cache (snd (cache_set default_config toy_lib all_faults 0 ''k'' (PStr ''v'') None diverged_cache))
     = disk_cache diverged_cache"
  using set_writes_memory_and_never_raises[of default_config toy_lib all_faults 0 "''k''" "PStr ''v''"
      None diverged_cache]
  by (simp add: all_faults_def)

text \<open>
  Claim C6, as amended. If tier 3 holds a live entry for \<open>k\<close>, tier 1 has none, tier 2
  does not answer the read (it is unavailable, raises, or holds no live entry for \<open>k\<close>)
  and the disk read does not raise, then \<open>get(k)\<close> returns the tier-3 value, records a
  disk hit and stores that value in tier 1; a following \<open>get(k)\<close> within the configured
  default lifetime (which is positive) returns the same value from tier 1: a memory hit is
  recorded and no further disk hit.
\<close>

theorem disk_hit_backfills_memory:
  assumes "memory_cache cm k = None"
    and "disk_lookup now (disk_cache cm) k = Some v"
    and "\<not> disk_raises f"
    and "\<not> redis_serves f now cm k"
    and "0 < cache_ttl cfg"
    and "now \<le> now'" and "now' < now + of_int (cache_ttl cfg)"
  shows "let first = cache_get cfg lib f now k dflt cm;
             second = cache_get cfg lib f' now' k dflt' (snd first)
         in fst first = Inr v \<and>
            disk_hits (stats (snd first)) = disk_hits (stats cm) + 1 \<and>
            memory_cache (snd first) k = Some v \<and>
            fst second = Inr v \<and>
            memory_hits (stats (snd second)) = memory_hits (stats (snd first)) + 1 \<and>
            disk_hits (stats (snd second)) = disk_hits (stats (snd first))"
  using assms by (auto simp add: cache_defs Let_def redis_serves_def)

theorem disk_hit_backfills_memory_witness:
  "fst (cache_get default_config toy_lib no_faults 0 ''k'' PNone disk_only_cache) = Inr (PStr ''v'') \<and>
   fst (cache_get default_config toy_lib no_faults 1 ''k'' PNone
          (snd (cache_get default_config toy_lib no_faults 0 ''k'' PNone disk_only_cache)))
     = Inr (PStr ''v'') \<and>
   memory_hits (stats (snd (cache_get default_config toy_lib no_faults 1 ''k'' PNone
          (snd (cache_get default_config toy_lib no_faults 0 ''k'' PNone disk_only_cache))))) = 1"
proof -
  have h1: "memory_cache disk_only_cache ''k'' = None"
    by (simp add: disk_only_cache_def new_cache_def)
  have h2: "disk_lookup 0 (disk_cache disk_only_cache) ''k'' = Some (PStr ''v'')"
    by (simp add: disk_only_cache_def new_cache_def disk_lookup_def)
  have h3: "\<not> disk_raises no_faults" by (simp add: no_faults_def)
  have h4: "\<not> redis_serves no_faults 0 disk_only_cache ''k''"
    by (simp add: redis_serves_def disk_only_cache_def new_cache_def redis_lookup_def)
  have h5: "0 < cache_ttl default_config" by (simp add: default_config_def)
  have h6: "(0::rat) \<le> 1" by simp
  have h7: "(1::rat) < 0 + of_int (cache_ttl default_config)" by (simp add: default_config_def)
  have m0: "memory_hits (stats (snd (cache_get default_config toy_lib no_faults 0 ''k'' PNone disk_only_cache))) = 0"
    using h2 h3
    by (simp add: cache_defs Let_def disk_only_cache_def new_cache_def zero_stats_def redis_lookup_def)
  show ?thesis
    using disk_hit_backfills_memory[OF h1 h2 h3 h4 h5 h6 h7, where lib = toy_lib and dflt = PNone
        and f' = no_faults and dflt' = PNone] m0
    by (simp add: Let_def)
qed

text \<open>
  Claim C6 as stated fails: tier 3 holds \<open>k\<close> and tier 1 does not, yet \<open>get(k)\<close> returns
  the value of tier 2, which is consulted first and here holds a different value.
\<close>

theorem tier3_value_shadowed_by_tier2_counterexample:
  "memory_cache diverged_cache ''k'' = None \<and>
   disk_lookup 0 (disk_cache diverged_cache) ''k'' = Some (PStr ''old'') \<and>
   fst (cache_get default_config toy_lib no_faults 0 ''k'' PNone diverged_cache) = Inr (PStr ''new'')"
  by (simp add: cache_defs Let_def diverged_cache_def new_cache_def disk_lookup_def redis_lookup_def
      no_faults_def toy_lib_def)

text \<open>
  Claim C7, as amended. After a read of \<open>k\<close> that was served by a slower tier (recorded
  as a Redis hit or a disk hit), tier 1 holds \<open>k\<close> with the value returned and with the
  expiry \<open>now + cache_ttl\<close>, the configured default lifetime counted from the read,
  whatever the expiry of the slower tier's entry. The read writes to tier 1 only: the
  Redis store and the disk store are unchanged, so a disk hit does not fill tier 2.
\<close>

theorem slower_tier_hit_backfills_memory_with_default_ttl:
  assumes "redis_hits (stats (snd (cache_get cfg lib f now k dflt cm))) = redis_hits (stats cm) + 1 \<or>
           disk_hits (stats (snd (cache_get cfg lib f now k dflt cm))) = disk_hits (stats cm) + 1"
  shows "\<exists>v. fst (cache_get cfg lib f now k dflt cm) = Inr v \<and>
             memory_cache (snd (cache_get cfg lib f now k dflt cm)) k = Some v \<and>
             memory_cache_ttl (snd (cache_get cfg lib f now k dflt cm)) k =
               Some (now + of_int (cache_ttl cfg)) \<and>
             redis_store (snd (cache_get cfg lib f now k dflt cm)) = redis_store cm \<and>
             disk_cache (snd (cache_get cfg lib f now k dflt cm)) = disk_cache cm"
  using assms
  by (auto simp add: cache_defs Let_def split: option.splits if_splits)

theorem slower_tier_hit_backfills_memory_with_default_ttl_witness:
  "disk_hits (stats (snd (cache_get default_config toy_lib no_faults 0 ''k'' PNone disk_only_cache))) =
     disk_hits (stats disk_only_cache) + 1 \<and>
   memory_cache_ttl (snd (cache_get default_config toy_lib no_faults 0 ''k'' PNone disk_only_cache)) ''k''
     = Some 3600"
proof -
  have h: "disk_hits (stats (snd (cache_get default_config toy_lib no_faults 0 ''k'' PNone disk_only_cache))) =
     disk_hits (stats disk_only_cache) + 1"
    by (simp add: cache_defs Let_def disk_only_cache_def new_cache_def zero_stats_def redis_lookup_def
        disk_lookup_def no_faults_def)
  show ?thesis
    using slower_tier_hit_backfills_memory_with_default_ttl[OF disjI2, OF h] h
    by (auto simp add: default_config_def)
qed

text \<open>
  Claim C7 as stated fails: the disk entry lives until 604800, the successful read at time
  0 leaves a tier-1 entry that expires at 3600, earlier than the disk entry, and tier 2,
  though available, still does not hold the key.
\<close>

theorem backfill_expires_before_disk_entry_counterexample:
  "disk_cache disk_only_cache ''k'' = Some (PStr ''v'', 604800) \<and>
   fst (cache_get default_config toy_lib no_faults 0 ''k'' PNone disk_only_cache) = Inr (PStr ''v'') \<and>
   memory_cache_ttl (snd (cache_get default_config toy_lib no_faults 0 ''k'' PNone disk_only_cache)) ''k''
     = Some 3600 \<and>
   redis_available (snd (cache_get default_config toy_lib no_faults 0 ''k'' PNone disk_only_cache)) \<and>
   redis_store (snd (cache_get default_config toy_lib no_faults 0 ''k'' PNone disk_only_cache)) ''k'' = None"
  by (simp add: cache_defs Let_def disk_only_cache_def new_cache_def disk_lookup_def redis_lookup_def
      no_faults_def default_config_def)

section \<open>Theorems: translation engine and batch orchestrator\<close>

declare translate_batches.simps [simp del]

text \<open>Parsing never fails and always keeps the input text as \<open>original_text\<close>.\<close>

lemma parse_translation_response_original_text:
  "original_text (parse_translation_response lib response_text subtitle) = PStr (text subtitle)"
  by (auto simp: parse_translation_response_def parse_try_def fallback_result_def
      split: sum.splits pyval.splits option.splits)

lemma translate_try_original_text:
  assumes "translate_try E cfg lib subtitle key w = (Inr r, w')"
  shows "original_text r = PStr (text subtitle)"
  using assms
  by (auto simp: translate_try_def Let_def parse_translation_response_original_text
      split: prod.splits sum.splits option.splits)

lemma cache_get_uncached:
  assumes "uncached cm key"
  shows "uncached (snd (cache_get cfg lib f now key' dflt cm)) key"
  using assms
  by (auto simp: uncached_def cache_get_def get_redis_def get_disk_def set_memory_cache_def
      redis_lookup_def disk_lookup_def Let_def split: option.splits if_splits prod.splits)

lemma cache_get_uncached_miss:
  assumes "uncached cm key"
  shows "fst (cache_get cfg lib f now key dflt cm) = Inr dflt"
  using assms
  by (auto simp: uncached_def cache_get_def get_redis_def get_disk_def
      redis_lookup_def disk_lookup_def Let_def split: option.splits if_splits)

lemma translator_cache_get_fst:
  "fst (translator_cache_get E cfg lib key w) =
     fst (cache_get cfg lib (cache_faults E (cache_calls w)) (clock E (cache_calls w)) key PNone
            (cache_manager w))"
  by (simp add: translator_cache_get_def split: prod.splits)

lemma translator_cache_get_cache:
  "cache_manager (snd (translator_cache_get E cfg lib key w)) =
     snd (cache_get cfg lib (cache_faults E (cache_calls w)) (clock E (cache_calls w)) key PNone
            (cache_manager w))"
  by (simp add: translator_cache_get_def split: prod.splits)

text \<open>Evaluation of \<open>translate_subtitle\<close> for \<open>hello\<close> on the two prepared caches.\<close>

lemma stale_lookup:
  "translator_cache_get outage_env default_config toy_lib
     (generate_cache_key toy_lib hello movie BALANCED HIGH) stale_translator =
   (Inr (PDict [(''original_text'', PStr ''Hello''), (''translated_text'', PStr ''Bonjour'')]),
    stale_translator\<lparr>cache_manager :=
        snd (cache_get default_config toy_lib no_faults 0
               (generate_cache_key toy_lib hello movie BALANCED HIGH) PNone
               (cache_manager stale_translator)),
      cache_calls := 1\<rparr>)"
  by (simp add: translator_cache_get_def stale_translator_def new_translator_def outage_env_def
      cache_get_def get_redis_def get_disk_def new_cache_def no_faults_def disk_lookup_def
      Let_def split: prod.splits)

lemma stale_kwargs:
  "result_from_kwargs (PDict [(''original_text'', PStr ''Hello''), (''translated_text'', PStr ''Bonjour'')])
   = Inl (PyException ''TypeError'')"
  by (simp add: result_from_kwargs_def field_names_def)

lemma translate_subtitle_stale:
  "fst (translate_subtitle outage_env default_config toy_lib hello movie BALANCED HIGH stale_translator)
   = Inl (PyException ''TypeError'')"
  by (simp add: translate_subtitle_def Let_def stale_lookup stale_kwargs)

lemma warm_lookup:
  "translator_cache_get outage_env default_config toy_lib
     (generate_cache_key toy_lib hello movie BALANCED HIGH) warm_translator =
   (Inr (result_dict bonjour),
    warm_translator\<lparr>cache_manager :=
        snd (cache_get default_config toy_lib no_faults 0
               (generate_cache_key toy_lib hello movie BALANCED HIGH) PNone
               (cache_manager warm_translator)),
      cache_calls := 1\<rparr>)"
  by (simp add: translator_cache_get_def warm_translator_def new_translator_def outage_env_def
      cache_get_def get_redis_def get_disk_def new_cache_def no_faults_def disk_lookup_def
      Let_def split: prod.splits)

lemma result_from_kwargs_result_dict:
  "result_from_kwargs (result_dict r) = Inr r"
  by (simp add: result_from_kwargs_def result_dict_def field_names_def)

lemma translate_subtitle_warm:
  "fst (translate_subtitle outage_env default_config toy_lib hello movie BALANCED HIGH warm_translator)
   = Inr bonjour"
proof -
  have "truthy (result_dict bonjour)" by (simp add: result_dict_def)
  then show ?thesis
    by (simp add: translate_subtitle_def Let_def warm_lookup result_from_kwargs_result_dict)
qed

text \<open>The cache lookup never raises; a hit goes through the constructor.\<close>

lemma cache_get_never_raises:
  "\<exists>v. fst (cache_get cfg lib f now key dflt cm) = Inr v"
  by (auto simp: cache_get_def get_redis_def get_disk_def Let_def split: option.splits)

lemma translator_cache_get_never_raises:
  "\<exists>v. fst (translator_cache_get E cfg lib key w) = Inr v"
  using cache_get_never_raises by (simp add: translator_cache_get_fst)

lemma result_from_kwargs_error:
  "result_from_kwargs v = Inl e \<Longrightarrow> e = PyException ''TypeError''"
  by (auto simp: result_from_kwargs_def split: pyval.splits if_splits option.splits list.splits)

lemma those_map_Some:
  "those (map f xs) = Some ys \<Longrightarrow> \<forall>x \<in> set xs. f x \<noteq> None"
  by (induction xs arbitrary: ys) (auto split: option.splits)

lemma those_map_total:
  "\<forall>x \<in> set xs. f x \<noteq> None \<Longrightarrow> \<exists>ys. those (map f xs) = Some ys \<and> length ys = length xs"
  by (induction xs) (auto split: option.splits)

lemma result_from_kwargs_succeeds_iff:
  "(\<exists>r. result_from_kwargs v = Inr r) = (\<exists>d. v = PDict d \<and> set (map fst d) = set field_names)"
proof
  assume "\<exists>r. result_from_kwargs v = Inr r"
  then obtain r where r: "result_from_kwargs v = Inr r" by blast
  then obtain d where v: "v = PDict d"
    by (cases v) (auto simp: result_from_kwargs_def)
  have sub: "list_all (\<lambda>k. k \<in> set field_names) (map fst d)"
    using r v by (auto simp: result_from_kwargs_def split: if_splits)
  obtain ys where ys: "those (map (map_of d) field_names) = Some ys"
    using r v by (auto simp: result_from_kwargs_def split: if_splits option.splits)
  have "\<forall>k \<in> set field_names. map_of d k \<noteq> None"
    using those_map_Some[OF ys] .
  then have "set field_names \<subseteq> set (map fst d)"
    by (auto simp: map_of_eq_None_iff)
  moreover have "set (map fst d) \<subseteq> set field_names"
    using sub by (auto simp: list_all_iff)
  ultimately show "\<exists>d. v = PDict d \<and> set (map fst d) = set field_names"
    using v by blast
next
  assume "\<exists>d. v = PDict d \<and> set (map fst d) = set field_names"
  then obtain d where v: "v = PDict d" and eq: "set (map fst d) = set field_names" by blast
  have sub: "list_all (\<lambda>k. k \<in> set field_names) (map fst d)"
    using eq by (auto simp: list_all_iff)
  have "\<forall>k \<in> set field_names. map_of d k \<noteq> None"
    using eq by (auto simp: map_of_eq_None_iff)
  then obtain ys where ys: "those (map (map_of d) field_names) = Some ys"
    and len: "length ys = length field_names"
    using those_map_total[of field_names "map_of d"] by blast
  have "length ys = 9" using len by (simp add: field_names_def)
  then obtain a b c d1 e f g h i where "ys = [a, b, c, d1, e, f, g, h, i]"
    by (auto simp: numeral_eq_Suc length_Suc_conv)
  then show "\<exists>r. result_from_kwargs v = Inr r"
    using v sub ys by (simp add: result_from_kwargs_def)
qed

lemma translate_subtitle_hit:
  assumes "fst (translator_cache_get E cfg lib (generate_cache_key lib subtitle ctx style quality) w)
             = Inr cached"
    and "truthy cached"
  shows "fst (translate_subtitle E cfg lib subtitle ctx style quality w) = result_from_kwargs cached"
  using assms
  by (cases "translator_cache_get E cfg lib (generate_cache_key lib subtitle ctx style quality) w")
     (simp add: translate_subtitle_def Let_def)

lemma complete_result_iff:
  "complete_result v = (\<exists>d. v = PDict d \<and> set (map fst d) = set field_names)"
  by (cases v) (auto simp: complete_result_def)

lemma complete_result_truthy:
  assumes "complete_result v"
  shows "truthy v"
proof -
  have "field_names \<noteq> []" by (simp add: field_names_def)
  then have ne: "set field_names \<noteq> {}" by simp
  obtain d where v: "v = PDict d" and eq: "set (map fst d) = set field_names"
    using assms complete_result_iff by blast
  have "d \<noteq> []" using eq ne by auto
  then show ?thesis using v by simp
qed

lemma those_map_eq:
  "those (map f xs) = Some ys \<Longrightarrow> map f xs = map Some ys"
  by (induction xs arbitrary: ys) (auto split: option.splits)

lemma result_from_kwargs_fields:
  assumes "result_from_kwargs (PDict d) = Inr r"
  shows "map (map_of d) field_names =
         map Some [original_text r, translated_text r, confidence r, quality_score r,
                   style_score r, cultural_score r, character_score r, suggestions r,
                   alternative_translations r]"
proof -
  obtain ys where ys: "those (map (map_of d) field_names) = Some ys"
    using assms by (auto simp: result_from_kwargs_def split: if_splits option.splits)
  have "ys = [original_text r, translated_text r, confidence r, quality_score r,
              style_score r, cultural_score r, character_score r, suggestions r,
              alternative_translations r]"
    using assms ys
    by (auto simp: result_from_kwargs_def split: if_splits list.splits)
  then show ?thesis using those_map_eq[OF ys] by simp
qed

lemma result_from_kwargs_cases:
  "if complete_result v
   then \<exists>r. result_from_kwargs v = Inr r \<and>
            (\<forall>d. v = PDict d \<longrightarrow>
               map (map_of d) field_names =
               map Some [original_text r, translated_text r, confidence r, quality_score r,
                         style_score r, cultural_score r, character_score r, suggestions r,
                         alternative_translations r])
   else result_from_kwargs v = Inl (PyException ''TypeError'')"
proof (cases "complete_result v")
  case True
  then obtain r where r: "result_from_kwargs v = Inr r"
    using result_from_kwargs_succeeds_iff[of v] complete_result_iff[of v] by blast
  then show ?thesis using True result_from_kwargs_fields by auto
next
  case False
  then have "\<not> (\<exists>r. result_from_kwargs v = Inr r)"
    using result_from_kwargs_succeeds_iff[of v] complete_result_iff[of v] by blast
  then obtain e where "result_from_kwargs v = Inl e"
    by (cases "result_from_kwargs v") auto
  then show ?thesis using False result_from_kwargs_error by auto
qed

text \<open>
  Claim C10, as amended. The cache lookup of \<open>translate_subtitle\<close> never raises. When it
  yields no usable value (the default \<open>None\<close> or another falsy value), then for every
  outcome of the transport, of the extraction of the text, of parsing, of the cache write
  and of the statistics update, \<open>translate_subtitle\<close> returns a \<open>TranslationResult\<close> whose
  \<open>original_text\<close> is the input subtitle's text, and no exception reaches the caller. When
  it yields a truthy value, \<open>translate_subtitle\<close> returns what
  \<open>TranslationResult(**cached_result)\<close> yields, outside the \<open>try\<close>: for a dict whose keys
  are exactly the nine field names the result with the cached field values, and for every
  other value the constructor's TypeError, which reaches the caller.
\<close>

theorem translate_subtitle_total_on_miss_constructs_on_hit:
  "\<exists>cached.
     fst (translator_cache_get E cfg lib (generate_cache_key lib subtitle ctx style quality) w)
       = Inr cached \<and>
     (if truthy cached
      then fst (translate_subtitle E cfg lib subtitle ctx style quality w) = result_from_kwargs cached \<and>
           (if complete_result cached
            then \<exists>r. result_from_kwargs cached = Inr r \<and>
                     (\<forall>d. cached = PDict d \<longrightarrow>
                        map (map_of d) field_names =
                        map Some [original_text r, translated_text r, confidence r, quality_score r,
                                  style_score r, cultural_score r, character_score r, suggestions r,
                                  alternative_translations r])
            else result_from_kwargs cached = Inl (PyException ''TypeError''))
      else \<exists>r. fst (translate_subtitle E cfg lib subtitle ctx style quality w) = Inr r \<and>
               original_text r = PStr (text subtitle))"
proof -
  let ?key = "generate_cache_key lib subtitle ctx style quality"
  obtain cached where c: "fst (translator_cache_get E cfg lib ?key w) = Inr cached"
    using translator_cache_get_never_raises by blast
  show ?thesis
  proof (cases "truthy cached")
    case True
    have hit: "fst (translate_subtitle E cfg lib subtitle ctx style quality w) =
               result_from_kwargs cached"
      using translate_subtitle_hit[OF c True] .
    show ?thesis
      apply (rule exI[of _ cached])
      apply (rule conjI[OF c])
      apply (simp only: True if_True)
      apply (rule conjI[OF hit])
      apply (rule result_from_kwargs_cases)
      done
  next
    case False
    obtain w1 where g: "translator_cache_get E cfg lib ?key w = (Inr cached, w1)"
      using c by (cases "translator_cache_get E cfg lib ?key w") simp
    obtain o1 w2 where t: "translate_try E cfg lib subtitle ?key w1 = (o1, w2)"
      by (cases "translate_try E cfg lib subtitle ?key w1")
    have total: "\<exists>r. fst (translate_subtitle E cfg lib subtitle ctx style quality w) = Inr r \<and>
              original_text r = PStr (text subtitle)"
    proof (cases o1)
      case (Inl e)
      then show ?thesis using g t False
        by (simp add: translate_subtitle_def Let_def fallback_result_def)
    next
      case (Inr r)
      then show ?thesis
        using g t False translate_try_original_text[of E cfg lib subtitle ?key w1 r w2]
        by (simp add: translate_subtitle_def Let_def)
    qed
    show ?thesis
      apply (rule exI[of _ cached])
      apply (rule conjI[OF c])
      apply (simp only: False if_False)
      apply (rule total)
      done
  qed
qed

theorem translate_subtitle_total_on_miss_constructs_on_hit_witness:
  "(\<exists>r. fst (translate_subtitle outage_env default_config toy_lib hello movie BALANCED HIGH
               new_translator) = Inr r \<and>
        original_text r = PStr ''Hello'') \<and>
   fst (translate_subtitle outage_env default_config toy_lib hello movie BALANCED HIGH warm_translator)
     = Inr bonjour \<and>
   fst (translate_subtitle outage_env default_config toy_lib hello movie BALANCED HIGH stale_translator)
     = Inl (PyException ''TypeError'')"
proof -
  let ?key = "generate_cache_key toy_lib hello movie BALANCED HIGH"
  have miss: "fst (translator_cache_get outage_env default_config toy_lib ?key new_translator) = Inr PNone"
    by (simp add: translator_cache_get_fst cache_get_uncached_miss uncached_def new_translator_def
        new_cache_def)
  have warm: "fst (translator_cache_get outage_env default_config toy_lib ?key warm_translator)
              = Inr (result_dict bonjour)"
    by (simp add: warm_lookup)
  have stale: "fst (translator_cache_get outage_env default_config toy_lib ?key stale_translator)
               = Inr (PDict [(''original_text'', PStr ''Hello''), (''translated_text'', PStr ''Bonjour'')])"
    by (simp add: stale_lookup)
  have tw: "truthy (result_dict bonjour)" by (simp add: result_dict_def)
  have ts: "truthy (PDict [(''original_text'', PStr ''Hello''), (''translated_text'', PStr ''Bonjour'')])"
    by simp
  have text_hello: "text hello = ''Hello''" by (simp add: hello_def)
  from translate_subtitle_total_on_miss_constructs_on_hit[of outage_env default_config toy_lib
      hello movie BALANCED HIGH new_translator]
  obtain c1 where l1: "fst (translator_cache_get outage_env default_config toy_lib ?key new_translator) = Inr c1"
    and r1: "if truthy c1
             then fst (translate_subtitle outage_env default_config toy_lib hello movie BALANCED HIGH
                         new_translator) = result_from_kwargs c1 \<and>
                  (if complete_result c1
                   then \<exists>r. result_from_kwargs c1 = Inr r \<and>
                     (\<forall>d. c1 = PDict d \<longrightarrow>
                        map (map_of d) field_names =
                        map Some [original_text r, translated_text r, confidence r, quality_score r,
                                  style_score r, cultural_score r, character_score r, suggestions r,
                                  alternative_translations r])
                   else result_from_kwargs c1 = Inl (PyException ''TypeError''))
             else \<exists>r. fst (translate_subtitle outage_env default_config toy_lib hello movie BALANCED
                              HIGH new_translator) = Inr r \<and>
                      original_text r = PStr (text hello)"
    by blast
  have "c1 = PNone" using l1 miss by simp
  then have a: "\<exists>r. fst (translate_subtitle outage_env default_config toy_lib hello movie BALANCED
                              HIGH new_translator) = Inr r \<and>
                      original_text r = PStr ''Hello''"
    using r1 text_hello by simp
  from translate_subtitle_total_on_miss_constructs_on_hit[of outage_env default_config toy_lib
      hello movie BALANCED HIGH warm_translator]
  obtain c2 where l2: "fst (translator_cache_get outage_env default_config toy_lib ?key warm_translator) = Inr c2"
    and r2: "truthy c2 \<longrightarrow>
             fst (translate_subtitle outage_env default_config toy_lib hello movie BALANCED HIGH
                    warm_translator) = result_from_kwargs c2"
    by (metis (no_types, lifting))
  have "c2 = result_dict bonjour" using l2 warm by simp
  then have b: "fst (translate_subtitle outage_env default_config toy_lib hello movie BALANCED HIGH
                       warm_translator) = Inr bonjour"
    using r2 tw by (simp add: result_from_kwargs_result_dict)
  from translate_subtitle_total_on_miss_constructs_on_hit[of outage_env default_config toy_lib
      hello movie BALANCED HIGH stale_translator]
  obtain c3 where l3: "fst (translator_cache_get outage_env default_config toy_lib ?key stale_translator) = Inr c3"
    and r3: "truthy c3 \<longrightarrow>
             fst (translate_subtitle outage_env default_config toy_lib hello movie BALANCED HIGH
                    stale_translator) = result_from_kwargs c3"
    by (metis (no_types, lifting))
  have "c3 = PDict [(''original_text'', PStr ''Hello''), (''translated_text'', PStr ''Bonjour'')]"
    using l3 stale by simp
  then have c: "fst (translate_subtitle outage_env default_config toy_lib hello movie BALANCED HIGH
                       stale_translator) = Inl (PyException ''TypeError'')"
    using r3 ts by (simp add: stale_kwargs)
  show ?thesis using a b c by blast
qed

text \<open>
  Claim C10 as stated fails: the cache lookup and \<open>TranslationResult(**cached_result)\<close>
  stand before the \<open>try\<close>. With a cached entry that lacks result fields the constructor
  raises TypeError and \<open>translate_subtitle\<close> propagates it; the transport is not reached.
\<close>

theorem translate_subtitle_raises_on_stale_entry_counterexample:
  "fst (translate_subtitle outage_env default_config toy_lib hello movie BALANCED HIGH
          stale_translator) = Inl (PyException ''TypeError'')"
  by (rule translate_subtitle_stale)

text \<open>The chunked loop computes what one pass over the whole list computes.\<close>

lemma gather_Cons:
  "gather E cfg lib ctx style quality (subtitle # rest) w =
     (fst (translate_subtitle E cfg lib subtitle ctx style quality w) #
        fst (gather E cfg lib ctx style quality rest
               (snd (translate_subtitle E cfg lib subtitle ctx style quality w))),
      snd (gather E cfg lib ctx style quality rest
             (snd (translate_subtitle E cfg lib subtitle ctx style quality w))))"
  by (simp split: prod.splits)

declare gather.simps(2) [simp del]

lemma gather_length:
  "length (fst (gather E cfg lib ctx style quality subs w)) = length subs"
  by (induction subs arbitrary: w) (simp_all add: gather_Cons)

lemma gather_append:
  "gather E cfg lib ctx style quality (xs @ ys) w =
     (fst (gather E cfg lib ctx style quality xs w) @
        fst (gather E cfg lib ctx style quality ys (snd (gather E cfg lib ctx style quality xs w))),
      snd (gather E cfg lib ctx style quality ys (snd (gather E cfg lib ctx style quality xs w))))"
  by (induction xs arbitrary: w) (simp_all add: gather_Cons)

lemma gather_nth:
  "i < length subs \<Longrightarrow>
   fst (gather E cfg lib ctx style quality subs w) ! i =
     fst (translate_subtitle E cfg lib (subs ! i) ctx style quality
            (snd (gather E cfg lib ctx style quality (take i subs) w)))"
proof (induction subs arbitrary: i w)
  case Nil
  then show ?case by simp
next
  case (Cons s subs)
  show ?case
  proof (cases i)
    case 0
    then show ?thesis by (simp add: gather_Cons)
  next
    case (Suc j)
    then have "j < length subs" using Cons.prems by simp
    then show ?thesis using Cons.IH[of j] Suc by (simp add: gather_Cons)
  qed
qed

lemma process_results_length:
  "length (process_results batch rs) = length rs"
  by (simp add: process_results_def)

lemma process_results_nth:
  "i < length rs \<Longrightarrow>
   process_results batch rs ! i =
     (case rs ! i of Inl e \<Rightarrow> fallback_result (batch ! i) | Inr r \<Rightarrow> r)"
  by (simp add: process_results_def nth_enumerate_eq)

lemma process_results_append:
  assumes "length rs1 = length xs"
  shows "process_results (xs @ ys) (rs1 @ rs2) = process_results xs rs1 @ process_results ys rs2"
proof (rule nth_equalityI)
  show "length (process_results (xs @ ys) (rs1 @ rs2)) =
        length (process_results xs rs1 @ process_results ys rs2)"
    by (simp add: process_results_length)
next
  fix i assume "i < length (process_results (xs @ ys) (rs1 @ rs2))"
  then have i: "i < length rs1 + length rs2" by (simp add: process_results_length)
  show "process_results (xs @ ys) (rs1 @ rs2) ! i =
        (process_results xs rs1 @ process_results ys rs2) ! i"
  proof (cases "i < length rs1")
    case True
    then show ?thesis using assms
      by (simp add: process_results_nth process_results_length nth_append split: sum.splits)
  next
    case False
    then have "i - length rs1 < length rs2" using i by simp
    then show ?thesis using assms False i
      by (simp add: process_results_nth process_results_length nth_append split: sum.splits)
  qed
qed

lemma translate_batches_eq:
  "0 < step \<Longrightarrow>
   translate_batches E cfg lib ctx style quality subtitles step i results w =
     (results @ process_results (drop i subtitles)
                  (fst (gather E cfg lib ctx style quality (drop i subtitles) w)),
      snd (gather E cfg lib ctx style quality (drop i subtitles) w))"
proof (induction E cfg lib ctx style quality subtitles step i results w
       rule: translate_batches.induct)
  case (1 E cfg lib ctx style quality subtitles step i results w)
  show ?case
  proof (cases "i < length subtitles")
    case False
    then show ?thesis
      by (simp add: translate_batches.simps[of E cfg lib ctx style quality subtitles step i]
          process_results_def)
  next
    case True
    let ?batch = "take step (drop i subtitles)"
    let ?rest = "drop (i + step) subtitles"
    let ?g = "gather E cfg lib ctx style quality ?batch w"
    have split: "drop i subtitles = ?batch @ ?rest"
      by (metis add.commute append_take_drop_id drop_drop)
    have IH: "translate_batches E cfg lib ctx style quality subtitles step (i + step)
                (results @ process_results ?batch (fst ?g)) (snd ?g) =
              ((results @ process_results ?batch (fst ?g)) @
                 process_results ?rest (fst (gather E cfg lib ctx style quality ?rest (snd ?g))),
               snd (gather E cfg lib ctx style quality ?rest (snd ?g)))"
      using "1.IH"[OF _ refl refl "1.prems"] True "1.prems" by simp
    have unfold: "translate_batches E cfg lib ctx style quality subtitles step i results w =
            translate_batches E cfg lib ctx style quality subtitles step (i + step)
                (results @ process_results ?batch (fst ?g)) (snd ?g)"
      using True "1.prems"
      by (simp add: translate_batches.simps[of E cfg lib ctx style quality subtitles step i] Let_def)
    have g: "gather E cfg lib ctx style quality (drop i subtitles) w =
             (fst ?g @ fst (gather E cfg lib ctx style quality ?rest (snd ?g)),
              snd (gather E cfg lib ctx style quality ?rest (snd ?g)))"
      using gather_append[of E cfg lib ctx style quality ?batch ?rest w] split by simp
    have p: "process_results (drop i subtitles)
               (fst ?g @ fst (gather E cfg lib ctx style quality ?rest (snd ?g))) =
             process_results ?batch (fst ?g) @
               process_results ?rest (fst (gather E cfg lib ctx style quality ?rest (snd ?g)))"
      using process_results_append[of "fst ?g" ?batch ?rest] split
      by (simp add: gather_length)
    show ?thesis unfolding unfold IH g using p by simp
  qed
qed

lemma translate_batch_eq:
  assumes "0 < (case bsz of None \<Rightarrow> batch_size cfg | Some b \<Rightarrow> b)"
  shows "translate_batch E cfg lib subtitles ctx style quality bsz w =
         (Inr (process_results subtitles (fst (gather E cfg lib ctx style quality subtitles w))),
          snd (gather E cfg lib ctx style quality subtitles w))"
proof -
  let ?step = "case bsz of None \<Rightarrow> batch_size cfg | Some b \<Rightarrow> b"
  have "0 < nat ?step" using assms by simp
  from translate_batches_eq[OF this, of E cfg lib ctx style quality subtitles 0 "[]" w]
  show ?thesis using assms by (simp add: translate_batch_def Let_def)
qed

lemma fallback_result_fields:
  "original_text (fallback_result s) = PStr (text s) \<and>
   translated_text (fallback_result s) = PStr (text s) \<and>
   confidence (fallback_result s) = PFloat 0 \<and>
   quality_score (fallback_result s) = PFloat 0 \<and>
   style_score (fallback_result s) = PFloat 0 \<and>
   cultural_score (fallback_result s) = PFloat 0 \<and>
   character_score (fallback_result s) = PFloat 0"
  by (simp add: fallback_result_def)

text \<open>
  Claim C4. For every list of \<open>N\<close> subtitles and every positive chunk size (the
  configured \<open>batch_size\<close> lies between 1 and 50), \<open>translate_batch\<close> returns normally with
  exactly \<open>N\<close> results in input order: slot \<open>i\<close> holds what \<open>translate_subtitle\<close> returned
  for \<open>subtitles[i]\<close>, run after the units before it, and when that call raised, the
  synthesized result for \<open>subtitles[i]\<close> that echoes its text and has zero confidence and
  quality. A failure of one unit changes no other slot.
\<close>

theorem translate_batch_order_and_isolation:
  assumes "0 < (case bsz of None \<Rightarrow> batch_size cfg | Some b \<Rightarrow> b)"
  shows "\<exists>results.
           fst (translate_batch E cfg lib subtitles ctx style quality bsz w) = Inr results \<and>
           length results = length subtitles \<and>
           (\<forall>i < length subtitles.
              results ! i =
                (case fst (translate_subtitle E cfg lib (subtitles ! i) ctx style quality
                             (snd (gather E cfg lib ctx style quality (take i subtitles) w))) of
                   Inl e \<Rightarrow> fallback_result (subtitles ! i)
                 | Inr r \<Rightarrow> r)) \<and>
           (\<forall>s. original_text (fallback_result s) = PStr (text s) \<and>
                translated_text (fallback_result s) = PStr (text s) \<and>
                confidence (fallback_result s) = PFloat 0 \<and>
                quality_score (fallback_result s) = PFloat 0)"
proof -
  let ?outs = "fst (gather E cfg lib ctx style quality subtitles w)"
  have len: "length (process_results subtitles ?outs) = length subtitles"
    by (simp add: process_results_length gather_length)
  have nth: "\<forall>i < length subtitles.
               process_results subtitles ?outs ! i =
                 (case fst (translate_subtitle E cfg lib (subtitles ! i) ctx style quality
                              (snd (gather E cfg lib ctx style quality (take i subtitles) w))) of
                    Inl e \<Rightarrow> fallback_result (subtitles ! i)
                  | Inr r \<Rightarrow> r)"
    by (simp add: process_results_nth gather_length gather_nth)
  show ?thesis
    using translate_batch_eq[OF assms, of E lib subtitles ctx style quality w] len nth
      fallback_result_fields
    by simp
qed

theorem translate_batch_order_and_isolation_witness:
  "0 < (case None of None \<Rightarrow> batch_size default_config | Some b \<Rightarrow> b) \<and>
   (\<exists>results.
      fst (translate_batch outage_env default_config toy_lib [hello, goodbye] movie BALANCED HIGH
             None stale_translator) = Inr results \<and>
      length results = 2 \<and> results ! 0 = fallback_result hello)"
proof -
  have h: "0 < (case None of None \<Rightarrow> batch_size default_config | Some b \<Rightarrow> b)"
    by (simp add: default_config_def)
  from translate_batch_order_and_isolation[OF h, of outage_env toy_lib "[hello, goodbye]" movie
      BALANCED HIGH stale_translator]
  obtain results where
    r: "fst (translate_batch outage_env default_config toy_lib [hello, goodbye] movie BALANCED HIGH
               None stale_translator) = Inr results" and
    l: "length results = length [hello, goodbye]" and
    n: "\<forall>i < length [hello, goodbye].
          results ! i =
            (case fst (translate_subtitle outage_env default_config toy_lib ([hello, goodbye] ! i)
                         movie BALANCED HIGH
                         (snd (gather outage_env default_config toy_lib movie BALANCED HIGH
                                 (take i [hello, goodbye]) stale_translator))) of
               Inl e \<Rightarrow> fallback_result ([hello, goodbye] ! i)
             | Inr r \<Rightarrow> r)"
    by blast
  have "results ! 0 = fallback_result hello"
    using n[rule_format, of 0] by (simp add: translate_subtitle_stale)
  then show ?thesis using h r l by simp
qed

text \<open>During an outage no completion arrives, and the cache is read but never written.\<close>

lemma make_request_fails:
  "exchange_fails (tr (attempts c)) \<Longrightarrow> \<exists>e. fst (make_request tr c) = Inl e"
  by (cases "tr (attempts c)" rule: exchange_fails.cases)
     (auto simp: make_request_def Let_def)

lemma chat_loop_outage:
  "\<forall>n. exchange_fails (tr n) \<Longrightarrow> \<exists>e. fst (chat_loop cfg tr rc le c) = Inl e"
proof (induction cfg tr rc le c rule: chat_loop.induct)
  case (1 cfg tr rc le c)
  show ?case
  proof (cases "rc < retry_attempts cfg")
    case False
    then show ?thesis by (simp add: chat_loop.simps[of cfg tr rc le c] split: option.splits)
  next
    case True
    obtain e c1 where mr: "make_request tr c = (Inl e, c1)"
      using make_request_fails[of tr c] "1.prems" by (cases "make_request tr c") auto
    show ?thesis
    proof (cases e)
      case (PyException n)
      then show ?thesis using True mr by (simp add: chat_loop.simps[of cfg tr rc le c])
    next
      case (APIError a)
      show ?thesis
      proof (cases "(500 \<le> status_code a \<or> status_code a = 429) \<and> rc + 1 < retry_attempts cfg")
        case False
        then show ?thesis using True mr APIError
          by (auto simp add: chat_loop.simps[of cfg tr rc le c])
      next
        case retry: True
        have "\<exists>e. fst (chat_loop cfg tr (rc + 1) (Some a)
                 (c1\<lparr>slept := slept c1 @ [min (2 ^ nat (rc + 1)) 10]\<rparr>)) = Inl e"
          using "1.IH"[OF True mr[symmetric] refl APIError _ _ "1.prems"] retry by blast
        then show ?thesis using True mr APIError retry
          by (simp add: chat_loop.simps[of cfg tr rc le c])
      qed
    qed
  qed
qed

lemma translate_try_outage:
  assumes "\<forall>n. exchange_fails (transport E n)"
  shows "(\<exists>e. fst (translate_try E cfg lib subtitle key w) = Inl e) \<and>
         cache_manager (snd (translate_try E cfg lib subtitle key w)) = cache_manager w"
proof -
  obtain e where "fst (chat_completion cfg (transport E) (deepseek_client w)) = Inl e"
    using chat_loop_outage[OF assms, of cfg 0 None "deepseek_client w"]
    by (auto simp: chat_completion_def)
  then show ?thesis
    by (cases "chat_completion cfg (transport E) (deepseek_client w)")
       (simp add: translate_try_def)
qed

lemma translate_subtitle_outage_uncached:
  assumes "\<forall>n. exchange_fails (transport E n)" and "uncached (cache_manager w) key"
  shows "uncached (cache_manager (snd (translate_subtitle E cfg lib subtitle ctx style quality w))) key"
proof -
  let ?k = "generate_cache_key lib subtitle ctx style quality"
  obtain r w1 where g: "translator_cache_get E cfg lib ?k w = (r, w1)"
    by (cases "translator_cache_get E cfg lib ?k w")
  have u1: "uncached (cache_manager w1) key"
    using translator_cache_get_cache[of E cfg lib ?k w] g cache_get_uncached[OF assms(2)] by simp
  have u2: "uncached (cache_manager (snd (translate_try E cfg lib subtitle ?k w1))) key"
    using translate_try_outage[OF assms(1), of cfg lib subtitle ?k w1] u1 by simp
  show ?thesis
    using g u1 u2
    by (auto simp: translate_subtitle_def Let_def split: sum.splits prod.splits)
qed

lemma translate_subtitle_outage_result:
  assumes "\<forall>n. exchange_fails (transport E n)"
    and "uncached (cache_manager w) (generate_cache_key lib subtitle ctx style quality)"
  shows "fst (translate_subtitle E cfg lib subtitle ctx style quality w) = Inr (fallback_result subtitle)"
proof -
  let ?k = "generate_cache_key lib subtitle ctx style quality"
  obtain w1 where g: "translator_cache_get E cfg lib ?k w = (Inr PNone, w1)"
    using translator_cache_get_fst[of E cfg lib ?k w] cache_get_uncached_miss[OF assms(2)]
    by (cases "translator_cache_get E cfg lib ?k w") simp
  obtain e where "fst (translate_try E cfg lib subtitle ?k w1) = Inl e"
    using translate_try_outage[OF assms(1)] by blast
  then show ?thesis using g
    by (cases "translate_try E cfg lib subtitle ?k w1") (simp add: translate_subtitle_def Let_def)
qed

lemma gather_outage_uncached:
  assumes "\<forall>n. exchange_fails (transport E n)"
  shows "uncached (cache_manager w) key \<Longrightarrow>
         uncached (cache_manager (snd (gather E cfg lib ctx style quality subs w))) key"
proof (induction subs arbitrary: w)
  case Nil
  then show ?case by simp
next
  case (Cons s subs)
  then show ?case
    using translate_subtitle_outage_uncached[OF assms] by (simp add: gather_Cons)
qed

lemma translate_subtitle_outage_miss:
  assumes "\<forall>n. exchange_fails (transport E n)"
    and "fst (translator_cache_get E cfg lib (generate_cache_key lib subtitle ctx style quality) w)
             = Inr cached"
    and "\<not> truthy cached"
  shows "fst (translate_subtitle E cfg lib subtitle ctx style quality w) = Inr (fallback_result subtitle)"
proof -
  let ?k = "generate_cache_key lib subtitle ctx style quality"
  obtain w1 where g: "translator_cache_get E cfg lib ?k w = (Inr cached, w1)"
    using assms(2) by (cases "translator_cache_get E cfg lib ?k w") simp
  obtain e where "fst (translate_try E cfg lib subtitle ?k w1) = Inl e"
    using translate_try_outage[OF assms(1)] by blast
  then show ?thesis using g assms(3)
    by (cases "translate_try E cfg lib subtitle ?k w1") (simp add: translate_subtitle_def Let_def)
qed

lemma outage_unit_result:
  assumes outage: "\<forall>n. exchange_fails (transport E n)"
    and look: "fst (translator_cache_get E cfg lib (generate_cache_key lib subtitle ctx style quality) w)
                 = Inr cached"
  shows "if complete_result cached
         then result_from_kwargs cached =
                Inr (case fst (translate_subtitle E cfg lib subtitle ctx style quality w) of
                       Inl e \<Rightarrow> fallback_result subtitle | Inr r \<Rightarrow> r)
         else (case fst (translate_subtitle E cfg lib subtitle ctx style quality w) of
                 Inl e \<Rightarrow> fallback_result subtitle | Inr r \<Rightarrow> r) = fallback_result subtitle"
proof (cases "complete_result cached")
  case True
  then obtain r where r: "result_from_kwargs cached = Inr r"
    using result_from_kwargs_cases[of cached] by auto
  have "fst (translate_subtitle E cfg lib subtitle ctx style quality w) = Inr r"
    using translate_subtitle_hit[OF look complete_result_truthy[OF True]] r by simp
  then show ?thesis using True r by simp
next
  case False
  then have err: "result_from_kwargs cached = Inl (PyException ''TypeError'')"
    using result_from_kwargs_cases[of cached] by simp
  have "(case fst (translate_subtitle E cfg lib subtitle ctx style quality w) of
           Inl e \<Rightarrow> fallback_result subtitle | Inr r \<Rightarrow> r) = fallback_result subtitle"
  proof (cases "truthy cached")
    case True
    then show ?thesis using translate_subtitle_hit[OF look True] err by simp
  next
    case nt: False
    then show ?thesis using translate_subtitle_outage_miss[OF outage look nt] by simp
  qed
  then show ?thesis using False by simp
qed

lemma broken_lookup:
  "fst (translator_cache_get broken_disk_env default_config toy_lib
          (generate_cache_key toy_lib hello movie BALANCED HIGH) warm_translator) = Inr PNone"
  by (simp add: translator_cache_get_fst broken_disk_env_def all_faults_def warm_translator_def
      new_translator_def new_cache_def cache_get_def get_redis_def get_disk_def)

lemma complete_result_dict:
  "complete_result (result_dict r)"
  by (simp add: complete_result_def result_dict_def field_names_def)

lemma singleton_nth:
  "length xs = 1 \<Longrightarrow> xs = [xs ! 0]"
  by (cases xs) auto

text \<open>
  Claim C9, as amended. Under a persistent outage of the remote service (every transport
  attempt fails) a batch translation with a positive chunk size returns normally with one
  result per unit. What a unit receives is decided by its cache lookup: when the lookup
  returns a complete stored result (a dict of exactly the nine result fields), the unit
  receives that stored result; in every other case (the lookup returns nothing or a falsy
  value, as when no tier holds the key or reading the store raises, or the stored value is
  not a complete result) the unit receives its echo result: translated text equal to the
  original text, confidence and quality zero. In particular every unit for whose cache key
  no tier holds an entry receives the echo result.
\<close>

theorem outage_batch_results_echo_or_cached:
  assumes "\<forall>n. exchange_fails (transport E n)"
    and "0 < (case bsz of None \<Rightarrow> batch_size cfg | Some b \<Rightarrow> b)"
  shows "\<exists>results.
           fst (translate_batch E cfg lib subtitles ctx style quality bsz w) = Inr results \<and>
           length results = length subtitles \<and>
           (\<forall>i < length subtitles. \<exists>cached.
              fst (translator_cache_get E cfg lib
                     (generate_cache_key lib (subtitles ! i) ctx style quality)
                     (snd (gather E cfg lib ctx style quality (take i subtitles) w))) = Inr cached \<and>
              (if complete_result cached
               then result_from_kwargs cached = Inr (results ! i)
               else results ! i = fallback_result (subtitles ! i))) \<and>
           (\<forall>i < length subtitles.
              uncached (cache_manager w) (generate_cache_key lib (subtitles ! i) ctx style quality) \<longrightarrow>
                results ! i = fallback_result (subtitles ! i)) \<and>
           (\<forall>s. original_text (fallback_result s) = PStr (text s) \<and>
                translated_text (fallback_result s) = PStr (text s) \<and>
                confidence (fallback_result s) = PFloat 0 \<and>
                quality_score (fallback_result s) = PFloat 0)"
proof -
  let ?outs = "fst (gather E cfg lib ctx style quality subtitles w)"
  let ?results = "process_results subtitles ?outs"
  have r: "fst (translate_batch E cfg lib subtitles ctx style quality bsz w) = Inr ?results"
    using translate_batch_eq[OF assms(2), of E lib subtitles ctx style quality w] by simp
  have len: "length ?results = length subtitles"
    by (simp add: process_results_length gather_length)
  have nth: "?results ! i =
               (case fst (translate_subtitle E cfg lib (subtitles ! i) ctx style quality
                            (snd (gather E cfg lib ctx style quality (take i subtitles) w))) of
                  Inl e \<Rightarrow> fallback_result (subtitles ! i) | Inr r \<Rightarrow> r)"
    if "i < length subtitles" for i
    using that by (simp add: process_results_nth gather_length gather_nth)
  have unit: "\<exists>cached.
              fst (translator_cache_get E cfg lib
                     (generate_cache_key lib (subtitles ! i) ctx style quality)
                     (snd (gather E cfg lib ctx style quality (take i subtitles) w))) = Inr cached \<and>
              (if complete_result cached
               then result_from_kwargs cached = Inr (?results ! i)
               else ?results ! i = fallback_result (subtitles ! i))"
    if i: "i < length subtitles" for i
  proof -
    let ?w = "snd (gather E cfg lib ctx style quality (take i subtitles) w)"
    obtain cached where look:
      "fst (translator_cache_get E cfg lib
              (generate_cache_key lib (subtitles ! i) ctx style quality) ?w) = Inr cached"
      using translator_cache_get_never_raises by blast
    have "if complete_result cached
          then result_from_kwargs cached = Inr (?results ! i)
          else ?results ! i = fallback_result (subtitles ! i)"
      unfolding nth[OF i] using outage_unit_result[OF assms(1) look] .
    then show ?thesis using look by blast
  qed
  have cold: "?results ! i = fallback_result (subtitles ! i)"
    if i: "i < length subtitles"
      and u: "uncached (cache_manager w) (generate_cache_key lib (subtitles ! i) ctx style quality)"
    for i
  proof -
    let ?w = "snd (gather E cfg lib ctx style quality (take i subtitles) w)"
    have "uncached (cache_manager ?w) (generate_cache_key lib (subtitles ! i) ctx style quality)"
      using gather_outage_uncached[OF assms(1) u] .
    then have "fst (translate_subtitle E cfg lib (subtitles ! i) ctx style quality ?w) =
               Inr (fallback_result (subtitles ! i))"
      using translate_subtitle_outage_result[OF assms(1)] by blast
    then show ?thesis unfolding nth[OF i] by simp
  qed
  show ?thesis
    apply (rule exI[of _ ?results])
    apply (rule conjI[OF r])
    apply (rule conjI[OF len])
    apply (rule conjI)
     apply (intro allI impI)
     apply (erule unit)
    apply (rule conjI)
     apply (intro allI impI)
     apply (erule (1) cold)
    apply (rule allI)
    apply (rule fallback_result_fields[THEN conjunct1, THEN conjI])
    apply (simp add: fallback_result_def)
    done
qed

theorem outage_batch_results_echo_or_cached_witness:
  "(\<forall>n. exchange_fails (transport outage_env n)) \<and>
   (\<forall>n. exchange_fails (transport broken_disk_env n)) \<and>
   0 < (case None of None \<Rightarrow> batch_size default_config | Some b \<Rightarrow> b) \<and>
   (\<exists>results.
      fst (translate_batch outage_env default_config toy_lib [hello, goodbye] movie BALANCED HIGH
             None new_translator) = Inr results \<and>
      length results = 2 \<and>
      results ! 0 = fallback_result hello \<and> results ! 1 = fallback_result goodbye) \<and>
   fst (translate_batch outage_env default_config toy_lib [hello] movie BALANCED HIGH None
          warm_translator) = Inr [bonjour] \<and>
   fst (translate_batch broken_disk_env default_config toy_lib [hello] movie BALANCED HIGH None
          warm_translator) = Inr [fallback_result hello]"
proof -
  let ?key = "generate_cache_key toy_lib hello movie BALANCED HIGH"
  have h1: "\<forall>n. exchange_fails (transport outage_env n)"
    by (simp add: outage_env_def always_refused_def)
  have h1': "\<forall>n. exchange_fails (transport broken_disk_env n)"
    by (simp add: broken_disk_env_def always_refused_def)
  have h2: "0 < (case None of None \<Rightarrow> batch_size default_config | Some b \<Rightarrow> b)"
    by (simp add: default_config_def)
  have u: "uncached (cache_manager new_translator) k" for k
    by (simp add: uncached_def new_translator_def new_cache_def)
  from outage_batch_results_echo_or_cached[OF h1 h2, of toy_lib "[hello, goodbye]" movie BALANCED HIGH
      new_translator]
  obtain cold where
    cr: "fst (translate_batch outage_env default_config toy_lib [hello, goodbye] movie BALANCED HIGH
               None new_translator) = Inr cold" and
    cl: "length cold = length [hello, goodbye]" and
    cn: "\<forall>i < length [hello, goodbye].
          uncached (cache_manager new_translator)
            (generate_cache_key toy_lib ([hello, goodbye] ! i) movie BALANCED HIGH) \<longrightarrow>
          cold ! i = fallback_result ([hello, goodbye] ! i)"
    by blast
  have c0: "cold ! 0 = fallback_result hello"
    using cn[rule_format, of 0] u by simp
  have c1: "cold ! 1 = fallback_result goodbye"
    using cn[rule_format, of 1] u by simp
  have a: "\<exists>results.
      fst (translate_batch outage_env default_config toy_lib [hello, goodbye] movie BALANCED HIGH
             None new_translator) = Inr results \<and>
      length results = 2 \<and>
      results ! 0 = fallback_result hello \<and> results ! 1 = fallback_result goodbye"
    using cr cl c0 c1 by simp
  from outage_batch_results_echo_or_cached[OF h1 h2, of toy_lib "[hello]" movie BALANCED HIGH
      warm_translator]
  obtain warm where
    wr: "fst (translate_batch outage_env default_config toy_lib [hello] movie BALANCED HIGH
               None warm_translator) = Inr warm" and
    wl: "length warm = length [hello]" and
    wn: "\<forall>i < length [hello]. \<exists>cached.
           fst (translator_cache_get outage_env default_config toy_lib
                  (generate_cache_key toy_lib ([hello] ! i) movie BALANCED HIGH)
                  (snd (gather outage_env default_config toy_lib movie BALANCED HIGH
                          (take i [hello]) warm_translator))) = Inr cached \<and>
           (if complete_result cached
            then result_from_kwargs cached = Inr (warm ! i)
            else warm ! i = fallback_result ([hello] ! i))"
    by blast
  obtain cw where
    lw: "fst (translator_cache_get outage_env default_config toy_lib ?key warm_translator) = Inr cw" and
    iw: "if complete_result cw then result_from_kwargs cw = Inr (warm ! 0)
         else warm ! 0 = fallback_result hello"
    using wn[rule_format, of 0] by auto
  have "cw = result_dict bonjour" using lw warm_lookup by simp
  then have "warm ! 0 = bonjour"
    using iw complete_result_dict[of bonjour] result_from_kwargs_result_dict[of bonjour] by simp
  then have b: "fst (translate_batch outage_env default_config toy_lib [hello] movie BALANCED HIGH
               None warm_translator) = Inr [bonjour]"
    using wr wl singleton_nth[of warm] by simp
  from outage_batch_results_echo_or_cached[OF h1' h2, of toy_lib "[hello]" movie BALANCED HIGH
      warm_translator]
  obtain brk where
    br: "fst (translate_batch broken_disk_env default_config toy_lib [hello] movie BALANCED HIGH
               None warm_translator) = Inr brk" and
    bl: "length brk = length [hello]" and
    bn: "\<forall>i < length [hello]. \<exists>cached.
           fst (translator_cache_get broken_disk_env default_config toy_lib
                  (generate_cache_key toy_lib ([hello] ! i) movie BALANCED HIGH)
                  (snd (gather broken_disk_env default_config toy_lib movie BALANCED HIGH
                          (take i [hello]) warm_translator))) = Inr cached \<and>
           (if complete_result cached
            then result_from_kwargs cached = Inr (brk ! i)
            else brk ! i = fallback_result ([hello] ! i))"
    by blast
  obtain cb where
    lb: "fst (translator_cache_get broken_disk_env default_config toy_lib ?key warm_translator) = Inr cb" and
    ib: "if complete_result cb then result_from_kwargs cb = Inr (brk ! 0)
         else brk ! 0 = fallback_result hello"
    using bn[rule_format, of 0] by auto
  have "cb = PNone" using lb broken_lookup by simp
  then have "brk ! 0 = fallback_result hello"
    using ib by (simp add: complete_result_def)
  then have c: "fst (translate_batch broken_disk_env default_config toy_lib [hello] movie BALANCED HIGH
               None warm_translator) = Inr [fallback_result hello]"
    using br bl singleton_nth[of brk] by simp
  show ?thesis using h1 h1' h2 a b c by blast
qed

text \<open>
  Claim C9 as stated fails: during the outage a unit whose translation is in the cache is
  served from there, and its result is the stored translation, not the echo.
\<close>

theorem outage_with_warm_cache_counterexample:
  "(\<forall>n. exchange_fails (transport outage_env n)) \<and>
   fst (translate_batch outage_env default_config toy_lib [hello] movie BALANCED HIGH None
          warm_translator) = Inr [bonjour] \<and>
   translated_text bonjour \<noteq> PStr (text hello) \<and>
   confidence bonjour \<noteq> PFloat 0"
proof -
  have h1: "\<forall>n. exchange_fails (transport outage_env n)"
    by (simp add: outage_env_def always_refused_def)
  have h2: "0 < (case None of None \<Rightarrow> batch_size default_config | Some b \<Rightarrow> b)"
    by (simp add: default_config_def)
  have "fst (translate_batch outage_env default_config toy_lib [hello] movie BALANCED HIGH None
          warm_translator) = Inr [bonjour]"
    using translate_batch_eq[OF h2, of outage_env toy_lib "[hello]" movie BALANCED HIGH warm_translator]
    by (simp add: gather_Cons translate_subtitle_warm process_results_def)
  then show ?thesis using h1 by (simp add: bonjour_def hello_def)
qed

end
